theory Spec2Isabelle
  imports Main
begin

section \<open>JavaScript values used by the server module\<close>

text \<open>
  A JavaScript string is a sequence of UTF-16 code units; the output of a child process
  is such a string.  Code units are natural numbers here.  The constant strings of the
  module (method names, commands, messages) are ASCII and are kept as \<open>string\<close>;
  \<open>js\<close> turns such a literal into its code units.
\<close>

type_synonym jsstring = "nat list"

definition js :: "string \<Rightarrow> jsstring" where
  "js s = map of_char s"

text \<open>
  A JavaScript number is an IEEE 754 double: NaN, an infinity, or a finite value.
  \<open>Finite neg m e\<close> is the double with sign \<open>neg\<close> and magnitude \<open>m * 2 ^ e\<close>, in its
  one canonical form: \<open>2 ^ 52 \<le> m < 2 ^ 53\<close> and \<open>- 1074 \<le> e \<le> 971\<close> for a normal
  number, \<open>m < 2 ^ 52\<close> and \<open>e = - 1074\<close> for a subnormal number or zero.  Zero has a
  sign.
\<close>

datatype jsnum = NaN | PosInfinity | NegInfinity | Finite bool nat int

definition isNaN :: "jsnum \<Rightarrow> bool" where
  "isNaN x = (x = NaN)"

text \<open>The number of binary digits of a natural number.\<close>

fun bits :: "nat \<Rightarrow> nat" where
  "bits n = (if n = 0 then 0 else Suc (bits (n div 2)))"

declare bits.simps [simp del]

text \<open>
  \<open>ilog2 num den\<close> is the integer \<open>k\<close> with \<open>2 ^ k \<le> num / den < 2 ^ (k + 1)\<close>, for
  positive \<open>num\<close> and \<open>den\<close>: the difference of the bit lengths, or one less.
\<close>

definition ilog2 :: "nat \<Rightarrow> nat \<Rightarrow> int" where
  "ilog2 num den =
     (let k = int (bits num) - int (bits den) in
      if (if 0 \<le> k then den * 2 ^ nat k \<le> num else den \<le> num * 2 ^ nat (- k)) then k
      else k - 1)"

text \<open>\<open>n / d\<close> rounded to the nearest natural number, a tie going to the even one.\<close>

definition round_half_even :: "nat \<Rightarrow> nat \<Rightarrow> nat" where
  "round_half_even n d =
     (let q = n div d; r = n mod d in
      if 2 * r < d then q
      else if d < 2 * r then q + 1
      else if even q then q else q + 1)"

text \<open>
  The Number value for the real number \<open>num / den\<close> with the sign \<open>neg\<close> (ECMAScript
  6.1.6.1): the nearest double, a tie going to the even significand; a magnitude that
  rounds to \<open>2 ^ 1024\<close> or more becomes an infinity; zero keeps the sign.  The unit in
  the last place is \<open>2 ^ p\<close>, where \<open>p\<close> is 52 below the binary exponent of the
  magnitude, and \<open>- 1074\<close> for a subnormal magnitude.
\<close>

definition number_value :: "bool \<Rightarrow> nat \<Rightarrow> nat \<Rightarrow> jsnum" where
  "number_value neg num den =
     (if num = 0 then Finite neg 0 (- 1074)
      else
        (let p = max (ilog2 num den) (- 1022) - 52;
             m = (if 0 \<le> p then round_half_even num (den * 2 ^ nat p)
                  else round_half_even (num * 2 ^ nat (- p)) den);
             p' = (if m = 2 ^ 53 then p + 1 else p);
             m' = (if m = 2 ^ 53 then 2 ^ 52 else m)
         in if 971 < p' then (if neg then NegInfinity else PosInfinity)
            else Finite neg m' p'))"

text \<open>
  \<open>x / 1000\<close> on a JavaScript number: IEEE division gives the double nearest to the
  exact quotient.
\<close>

fun div1000 :: "jsnum \<Rightarrow> jsnum" where
  "div1000 NaN = NaN"
| "div1000 PosInfinity = PosInfinity"
| "div1000 NegInfinity = NegInfinity"
| "div1000 (Finite neg m e) =
     (if 0 \<le> e then number_value neg (m * 2 ^ nat e) 1000
      else number_value neg m (1000 * 2 ^ nat (- e)))"

datatype js_error = Error (message: string)

subsection \<open>Character classes of the regular expressions and of \<open>parseFloat\<close>\<close>

text \<open>\<open>\d\<close> is \<open>[0-9]\<close>; \<open>[\d.]\<close> adds the full stop.\<close>

definition isDigit :: "nat \<Rightarrow> bool" where
  "isDigit c = (48 \<le> c \<and> c \<le> 57)"

definition isDigitOrDot :: "nat \<Rightarrow> bool" where
  "isDigitOrDot c = (isDigit c \<or> c = 46)"

text \<open>
  \<open>\s\<close>, and the characters \<open>parseFloat\<close> skips at the start: ECMAScript's WhiteSpace and
  LineTerminator (TAB, LF, VT, FF, CR, SP, NBSP, the Unicode space separators, LS, PS,
  and the byte order mark).
\<close>

definition isWhiteSpace :: "nat \<Rightarrow> bool" where
  "isWhiteSpace c =
     (c = 9 \<or> c = 10 \<or> c = 11 \<or> c = 12 \<or> c = 13 \<or> c = 32 \<or> c = 160 \<or> c = 5760
      \<or> (8192 \<le> c \<and> c \<le> 8202) \<or> c = 8232 \<or> c = 8233 \<or> c = 8239 \<or> c = 8287
      \<or> c = 12288 \<or> c = 65279)"

subsection \<open>\<open>parseFloat\<close>\<close>

text \<open>
  \<open>parseFloat\<close> skips leading white space and reads the longest prefix that is a
  StrDecimalLiteral: an optional sign, then \<open>Infinity\<close>, or digits with an optional
  fraction, or a fraction starting with the full stop, each with an optional exponent
  (\<open>e\<close> or \<open>E\<close>, an optional sign, at least one digit).  With no such prefix the
  result is NaN; otherwise it is the Number value for the mathematical value of the
  prefix, rounded correctly as V8 does.
\<close>

fun strip_prefix :: "'a list \<Rightarrow> 'a list \<Rightarrow> 'a list option" where
  "strip_prefix [] s = Some s"
| "strip_prefix (p # ps) [] = None"
| "strip_prefix (p # ps) (c # cs) = (if p = c then strip_prefix ps cs else None)"

definition digits_value :: "jsstring \<Rightarrow> nat" where
  "digits_value ds = foldl (\<lambda>a c. 10 * a + (c - 48)) 0 ds"

text \<open>The exponent part at the start of a string, as an integer; 0 when there is none.\<close>

definition exponent_part :: "jsstring \<Rightarrow> int" where
  "exponent_part s =
     (case s of
        [] \<Rightarrow> 0
      | c # r \<Rightarrow>
          if c = 101 \<or> c = 69 then
            (case r of
               [] \<Rightarrow> 0
             | d # r' \<Rightarrow>
                 if d = 45 then
                   (if takeWhile isDigit r' = [] then 0
                    else - int (digits_value (takeWhile isDigit r')))
                 else if d = 43 then
                   (if takeWhile isDigit r' = [] then 0
                    else int (digits_value (takeWhile isDigit r')))
                 else
                   (if takeWhile isDigit r = [] then 0
                    else int (digits_value (takeWhile isDigit r))))
          else 0)"

text \<open>
  \<open>scaled n k ex\<close> is the fraction \<open>n / 10 ^ k * 10 ^ ex\<close> as a numerator and a
  denominator.
\<close>

definition scaled :: "nat \<Rightarrow> nat \<Rightarrow> int \<Rightarrow> nat \<times> nat" where
  "scaled n k ex =
     (if 0 \<le> ex then (n * 10 ^ nat ex, 10 ^ k) else (n, 10 ^ k * 10 ^ nat (- ex)))"

text \<open>
  The mathematical value of the longest unsigned decimal prefix of a string, as a
  fraction; \<open>None\<close> when no prefix is a numeral.
\<close>

definition parse_unsigned :: "jsstring \<Rightarrow> (nat \<times> nat) option" where
  "parse_unsigned s =
     (let ip = takeWhile isDigit s; r1 = dropWhile isDigit s in
      if r1 \<noteq> [] \<and> hd r1 = 46 then
        (let fp = takeWhile isDigit (tl r1); r2 = dropWhile isDigit (tl r1) in
         if ip = [] \<and> fp = [] then None
         else Some (scaled (digits_value (ip @ fp)) (length fp) (exponent_part r2)))
      else if ip = [] then None
      else Some (scaled (digits_value ip) 0 (exponent_part r1)))"

definition parseFloat :: "jsstring \<Rightarrow> jsnum" where
  "parseFloat s =
     (let t = dropWhile isWhiteSpace s;
          neg = (case t of c # _ \<Rightarrow> c = 45 | [] \<Rightarrow> False);
          u = (case t of c # r \<Rightarrow> if c = 43 \<or> c = 45 then r else t | [] \<Rightarrow> t)
      in if strip_prefix (js ''Infinity'') u \<noteq> None
         then (if neg then NegInfinity else PosInfinity)
         else (case parse_unsigned u of
                 None \<Rightarrow> NaN
               | Some (num, den) \<Rightarrow> number_value neg num den))"

subsection \<open>The two regular expressions\<close>

text \<open>
  \<open>String.prototype.match\<close> with a regular expression without flags returns the
  leftmost match, or null.  \<open>search m s\<close> tries the anchored matcher \<open>m\<close> at every
  position of \<open>s\<close> from the left and returns the first capture.
\<close>

fun search :: "(jsstring \<Rightarrow> 'a option) \<Rightarrow> jsstring \<Rightarrow> 'a option" where
  "search m [] = m []"
| "search m (c # cs) = (case m (c # cs) of Some g \<Rightarrow> Some g | None \<Rightarrow> search m cs)"

text \<open>
  \<open>/temp=([\d.]+)/\<close> anchored at the start of \<open>s\<close>; the result is capture group 1.
  The greedy \<open>+\<close> is last in the pattern, so it takes every digit and full stop that
  follows.
\<close>

definition temp_here :: "jsstring \<Rightarrow> jsstring option" where
  "temp_here s =
     (case strip_prefix (js ''temp='') s of
        None \<Rightarrow> None
      | Some r \<Rightarrow>
          if takeWhile isDigitOrDot r = [] then None
          else Some (takeWhile isDigitOrDot r))"

text \<open>
  \<open>/Core \d+:\s+\+([\d.]+)\u00B0C/\<close> anchored at the start of \<open>s\<close>.  Each greedy
  \<open>+\<close> is followed by a character outside its class (\<open>:\<close> after \<open>\d+\<close>, \<open>+\<close> after
  \<open>\s+\<close>, the degree sign after \<open>[\d.]+\<close>), so giving back characters can never make
  the rest of the pattern match: the longest run is the only candidate.
\<close>

definition core_here :: "jsstring \<Rightarrow> jsstring option" where
  "core_here s =
     (case strip_prefix (js ''Core '') s of
        None \<Rightarrow> None
      | Some r1 \<Rightarrow>
          if takeWhile isDigit r1 = [] then None
          else
            (case dropWhile isDigit r1 of
               [] \<Rightarrow> None
             | c # r2 \<Rightarrow>
                 if c \<noteq> 58 \<or> takeWhile isWhiteSpace r2 = [] then None
                 else
                   (case dropWhile isWhiteSpace r2 of
                      [] \<Rightarrow> None
                    | p # r3 \<Rightarrow>
                        if p \<noteq> 43 \<or> takeWhile isDigitOrDot r3 = [] then None
                        else
                          (case strip_prefix [176, 67] (dropWhile isDigitOrDot r3) of
                             None \<Rightarrow> None
                           | Some _ \<Rightarrow> Some (takeWhile isDigitOrDot r3)))))"

section \<open>Module state\<close>

text \<open>The cache record \<open>currentTemperature\<close>.\<close>

record temperature_reading =
  temperature :: "jsnum option"
  timestamp :: "nat option"
  unit :: string
  error :: "string option"

record failed_methods =
  vcgencmd :: bool
  thermal_zone :: bool
  sensors :: bool

text \<open>
  The module's variables, and two observations of its effects on the outside: the
  commands handed to \<open>exec\<close> (oldest first) and the interval timers that are registered
  and not cleared.  \<open>setInterval\<close> returns a Timeout object, which is truthy; it is an
  identifier here.
\<close>

record globals =
  consoleLogged :: bool
  temperatureSupported :: bool
  updateIntervalId :: "nat option"
  failedMethods :: failed_methods
  workingMethod :: "string option"
  currentTemperature :: temperature_reading
  execLog :: "string list"
  liveTimers :: "nat list"

definition initial :: globals where
  "initial =
     \<lparr> consoleLogged = False,
       temperatureSupported = True,
       updateIntervalId = None,
       failedMethods = \<lparr> vcgencmd = False, thermal_zone = False, sensors = False \<rparr>,
       workingMethod = None,
       currentTemperature =
         \<lparr> temperature = None, timestamp = None, unit = ''C'', error = None \<rparr>,
       execLog = [],
       liveTimers = [] \<rparr>"

text \<open>
  What the outside world answers during one cycle: the error (if any) and the standard
  output that \<open>exec\<close> hands to its callback for each command, and the value of
  \<open>Date.now()\<close> when the cycle completes.
\<close>

record exec_result =
  exec_error :: "js_error option"
  stdout :: jsstring

record cycle_env =
  exec_outcome :: "string \<Rightarrow> exec_result"
  date_now :: nat

section \<open>The probes\<close>

text \<open>
  Every function that takes a callback calls it exactly once, as the last thing it does;
  such a function is modelled by returning the callback's arguments: \<open>Inl e\<close> for
  \<open>callback(e)\<close> and \<open>Inr temp\<close> for \<open>callback(null, temp)\<close>.  Calls of the logging
  functions are left out.
\<close>

definition exec :: "cycle_env \<Rightarrow> string \<Rightarrow> globals \<Rightarrow> exec_result \<times> globals" where
  "exec env cmd s = (exec_outcome env cmd, s\<lparr>execLog := execLog s @ [cmd]\<rparr>)"

text \<open>The arrow function that \<open>tryVcgencmd\<close> passes to \<open>exec\<close>.\<close>

definition vcgencmd_callback :: "exec_result \<Rightarrow> js_error + jsnum" where
  "vcgencmd_callback r =
     (if exec_error r = None \<and> stdout r \<noteq> [] then
        (case search temp_here (stdout r) of
           Some g \<Rightarrow> Inr (parseFloat g)
         | None \<Rightarrow> Inl (Error ''vcgencmd failed''))
      else Inl (Error ''vcgencmd failed''))"

definition tryVcgencmd :: "cycle_env \<Rightarrow> globals \<Rightarrow> (js_error + jsnum) \<times> globals" where
  "tryVcgencmd env s =
     (case exec env ''vcgencmd measure_temp'' s of (r, s') \<Rightarrow> (vcgencmd_callback r, s'))"

text \<open>The arrow function that \<open>tryThermalZone\<close> passes to \<open>exec\<close>.\<close>

definition thermal_zone_callback :: "exec_result \<Rightarrow> js_error + jsnum" where
  "thermal_zone_callback r =
     (if exec_error r = None \<and> stdout r \<noteq> [] then
        (let temp = div1000 (parseFloat (stdout r)) in
         if \<not> isNaN temp then Inr temp
         else Inl (Error ''thermal_zone0 failed''))
      else Inl (Error ''thermal_zone0 failed''))"

definition tryThermalZone :: "cycle_env \<Rightarrow> globals \<Rightarrow> (js_error + jsnum) \<times> globals" where
  "tryThermalZone env s =
     (case exec env ''cat /sys/class/thermal/thermal_zone0/temp'' s of
        (r, s') \<Rightarrow> (thermal_zone_callback r, s'))"

text \<open>The arrow function that \<open>trySensors\<close> passes to \<open>exec\<close>.\<close>

definition sensors_callback :: "exec_result \<Rightarrow> js_error + jsnum" where
  "sensors_callback r =
     (if exec_error r = None \<and> stdout r \<noteq> [] then
        (case search core_here (stdout r) of
           Some g \<Rightarrow> Inr (parseFloat g)
         | None \<Rightarrow> Inl (Error ''sensors failed''))
      else Inl (Error ''sensors failed''))"

definition trySensors :: "cycle_env \<Rightarrow> globals \<Rightarrow> (js_error + jsnum) \<times> globals" where
  "trySensors env s =
     (case exec env ''sensors -A 2>&1'' s of (r, s') \<Rightarrow> (sensors_callback r, s'))"

section \<open>The coordinator\<close>

text \<open>
  \<open>tryNextMethod\<close> calls itself after a failure, having set the flag of the probe that
  failed; the number of flags that are still clear goes down with every call.
\<close>

definition unfailed :: "globals \<Rightarrow> nat" where
  "unfailed s =
     (if vcgencmd (failedMethods s) then 0 else 1)
     + (if thermal_zone (failedMethods s) then 0 else 1)
     + (if sensors (failedMethods s) then 0 else 1)"

function tryNextMethod :: "cycle_env \<Rightarrow> globals \<Rightarrow> (js_error + jsnum) \<times> globals" where
  "tryNextMethod env s =
     (if \<not> vcgencmd (failedMethods s) then
        (case tryVcgencmd env s of
           (Inr temp, s') \<Rightarrow> (Inr temp, s'\<lparr>workingMethod := Some ''vcgencmd''\<rparr>)
         | (Inl e, s') \<Rightarrow>
             tryNextMethod env (s'\<lparr>failedMethods := (failedMethods s')\<lparr>vcgencmd := True\<rparr>\<rparr>))
      else if \<not> thermal_zone (failedMethods s) then
        (case tryThermalZone env s of
           (Inr temp, s') \<Rightarrow> (Inr temp, s'\<lparr>workingMethod := Some ''thermal_zone''\<rparr>)
         | (Inl e, s') \<Rightarrow>
             tryNextMethod env (s'\<lparr>failedMethods := (failedMethods s')\<lparr>thermal_zone := True\<rparr>\<rparr>))
      else if \<not> sensors (failedMethods s) then
        (case trySensors env s of
           (Inr temp, s') \<Rightarrow> (Inr temp, s'\<lparr>workingMethod := Some ''sensors''\<rparr>)
         | (Inl e, s') \<Rightarrow>
             tryNextMethod env (s'\<lparr>failedMethods := (failedMethods s')\<lparr>sensors := True\<rparr>\<rparr>))
      else (Inl (Error ''Unable to read temperature from system''), s))"
  by pat_completeness auto
termination
proof (relation "measure (\<lambda>(env, s). unfailed s)", goal_cases)
  case 1
  show ?case by simp
next
  case (2 env s x1 s' e)
  then show ?case by (auto simp: tryVcgencmd_def exec_def unfailed_def)
next
  case (3 env s x1 s' e)
  then show ?case by (auto simp: tryThermalZone_def exec_def unfailed_def)
next
  case (4 env s x1 s' e)
  then show ?case by (auto simp: trySensors_def exec_def unfailed_def)
qed

declare tryNextMethod.simps [simp del]

text \<open>
  \<open>readTemperature\<close>: a truthy \<open>workingMethod\<close> selects its probe in the
  \<open>switch\<close>; a value that is none of the three names falls through to
  \<open>tryNextMethod\<close>, as null and the empty string do.
\<close>

definition readTemperature :: "cycle_env \<Rightarrow> globals \<Rightarrow> (js_error + jsnum) \<times> globals" where
  "readTemperature env s =
     (case workingMethod s of
        None \<Rightarrow> tryNextMethod env s
      | Some m \<Rightarrow>
          if m = ''vcgencmd'' then tryVcgencmd env s
          else if m = ''thermal_zone'' then tryThermalZone env s
          else if m = ''sensors'' then trySensors env s
          else tryNextMethod env s)"

section \<open>The scheduler\<close>

text \<open>
  The callback that \<open>updateTemperature\<close> passes to \<open>readTemperature\<close>; \<open>t\<close> is the
  value of \<open>Date.now()\<close>.  \<open>clearInterval\<close> takes the timer out of the registered ones.
\<close>

definition updateTemperature_callback :: "js_error + jsnum \<Rightarrow> nat \<Rightarrow> globals \<Rightarrow> globals" where
  "updateTemperature_callback r t s =
     (case r of
        Inl e \<Rightarrow>
          (let s1 = s\<lparr>currentTemperature :=
                       \<lparr> temperature = None, timestamp = Some t, unit = ''C'',
                         error = Some (message e) \<rparr>\<rparr>;
               s2 = (if \<not> consoleLogged s1 then
                       (let s3 = s1\<lparr>temperatureSupported := False\<rparr> in
                        case updateIntervalId s3 of
                          Some i \<Rightarrow> s3\<lparr>liveTimers := removeAll i (liveTimers s3),
                                        updateIntervalId := None\<rparr>
                        | None \<Rightarrow> s3)
                     else s1)
           in s2\<lparr>consoleLogged := True\<rparr>)
      | Inr temp \<Rightarrow>
          s\<lparr>currentTemperature :=
               \<lparr> temperature = Some temp, timestamp = Some t, unit = ''C'', error = None \<rparr>,
            consoleLogged := True\<rparr>)"

definition updateTemperature :: "cycle_env \<Rightarrow> globals \<Rightarrow> globals" where
  "updateTemperature env s =
     (if \<not> temperatureSupported s then s
      else (case readTemperature env s of
              (r, s') \<Rightarrow> updateTemperature_callback r (date_now env) s'))"

section \<open>The endpoint\<close>

text \<open>
  The handler of \<open>GET /server_temp\<close>.  \<open>req.get\<close> returns the header's value or
  undefined; \<open>||\<close> replaces undefined and the empty string by \<open>'NoPlugin'\<close>.  The
  response is the status code (200 unless \<open>res.status\<close> sets it) and the object handed
  to \<open>json\<close>.
\<close>

datatype json_body = CacheRecord temperature_reading | ErrorObject string

definition server_temp_handler :: "string option \<Rightarrow> globals \<Rightarrow> nat \<times> json_body" where
  "server_temp_handler header s =
     (let pluginHeader = (case header of
                            None \<Rightarrow> ''NoPlugin''
                          | Some h \<Rightarrow> if h = [] then ''NoPlugin'' else h)
      in if pluginHeader = ''ServerTempPlugin'' then (200, CacheRecord (currentTemperature s))
         else (403, ErrorObject ''Unauthorised''))"

section \<open>The process\<close>

definition UPDATE_INTERVAL :: nat where
  "UPDATE_INTERVAL = 10 * 60 * 1000"

text \<open>
  The module body calls \<open>updateTemperature()\<close> and then \<open>setInterval\<close>.  The call only
  reads \<open>temperatureSupported\<close>, \<open>workingMethod\<close> and \<open>failedMethods.vcgencmd\<close> and
  hands a command to \<open>exec\<close>; everything the first cycle writes happens in callbacks,
  which run after the module body has finished, when \<open>updateIntervalId\<close> holds the
  timer.  So the first cycle completes in the state in which the timer is registered.
\<close>

definition module_body :: globals where
  "module_body = initial\<lparr>updateIntervalId := Some 1, liveTimers := [1]\<rparr>"

definition module_init :: "cycle_env \<Rightarrow> globals" where
  "module_init env = updateTemperature env module_body"

text \<open>
  After the first cycle the process reacts to two kinds of events, one at a time (a
  cycle has completed before the next event arrives): the interval timer fires, which
  happens only while the timer is registered, and a request reaches the endpoint, which
  reads the cache and writes nothing.
\<close>

datatype event = Tick cycle_env | Request "string option"

fun step :: "event \<Rightarrow> globals \<Rightarrow> globals" where
  "step (Tick env) s = (if liveTimers s = [] then s else updateTemperature env s)"
| "step (Request header) s = s"

definition run :: "cycle_env \<Rightarrow> event list \<Rightarrow> globals" where
  "run env0 evs = foldl (\<lambda>s e. step e s) (module_init env0) evs"

text \<open>
  What the start-up code of the two files schedules: a direct call, a \<open>setTimeout\<close> or
  a \<open>setInterval\<close>, with the delay in milliseconds.  \<open>invoked_at a cb t\<close> says that
  action \<open>a\<close> makes callback \<open>cb\<close> run \<open>t\<close> milliseconds after the start-up code.
  The server's module body calls \<open>updateTemperature()\<close> and then registers the
  interval; the client's \<open>init\<close> registers a timeout of 1000 ms and an interval for
  \<open>fetchTemperature\<close>.  Both files set \<open>UPDATE_INTERVAL\<close> to ten minutes.  Timers
  fire exactly on time here.
\<close>

datatype callback = UpdateTemperature | FetchTemperature

datatype startup_action = Call callback | SetTimeout callback nat | SetInterval callback nat

fun invoked_at :: "startup_action \<Rightarrow> callback \<Rightarrow> nat \<Rightarrow> bool" where
  "invoked_at (Call c) cb t = (c = cb \<and> t = 0)"
| "invoked_at (SetTimeout c d) cb t = (c = cb \<and> t = d)"
| "invoked_at (SetInterval c d) cb t = (c = cb \<and> 0 < t \<and> d dvd t)"

definition server_startup :: "startup_action list" where
  "server_startup = [Call UpdateTemperature, SetInterval UpdateTemperature UPDATE_INTERVAL]"

definition client_init :: "startup_action list" where
  "client_init = [SetTimeout FetchTemperature 1000, SetInterval FetchTemperature UPDATE_INTERVAL]"

definition invocations :: "startup_action list \<Rightarrow> callback \<Rightarrow> nat \<Rightarrow> bool" where
  "invocations as cb t = list_ex (\<lambda>a. invoked_at a cb t) as"

section \<open>The specification's view of the coordinator\<close>

text \<open>
  The fallback chain as the specification words it: walk the probes in a fixed order,
  skip a probe whose flag is set, stop at the first success and record the probe, set the
  flag of a probe that fails and go on; with no probe left, report exhaustion.
\<close>

datatype probe = ProbeA | ProbeB | ProbeC

fun invoke :: "probe \<Rightarrow> cycle_env \<Rightarrow> globals \<Rightarrow> (js_error + jsnum) \<times> globals" where
  "invoke ProbeA = tryVcgencmd"
| "invoke ProbeB = tryThermalZone"
| "invoke ProbeC = trySensors"

fun method_name :: "probe \<Rightarrow> string" where
  "method_name ProbeA = ''vcgencmd''"
| "method_name ProbeB = ''thermal_zone''"
| "method_name ProbeC = ''sensors''"

fun command :: "probe \<Rightarrow> string" where
  "command ProbeA = ''vcgencmd measure_temp''"
| "command ProbeB = ''cat /sys/class/thermal/thermal_zone0/temp''"
| "command ProbeC = ''sensors -A 2>&1''"

fun is_failed :: "probe \<Rightarrow> failed_methods \<Rightarrow> bool" where
  "is_failed ProbeA f = vcgencmd f"
| "is_failed ProbeB f = thermal_zone f"
| "is_failed ProbeC f = sensors f"

fun mark_failed :: "probe \<Rightarrow> failed_methods \<Rightarrow> failed_methods" where
  "mark_failed ProbeA f = f\<lparr>vcgencmd := True\<rparr>"
| "mark_failed ProbeB f = f\<lparr>thermal_zone := True\<rparr>"
| "mark_failed ProbeC f = f\<lparr>sensors := True\<rparr>"

text \<open>What a probe reports in a cycle; it depends on the outside world only.\<close>

definition outcome :: "probe \<Rightarrow> cycle_env \<Rightarrow> js_error + jsnum" where
  "outcome p env = fst (invoke p env initial)"

fun fallback_chain :: "cycle_env \<Rightarrow> probe list \<Rightarrow> globals \<Rightarrow> (js_error + jsnum) \<times> globals" where
  "fallback_chain env [] s = (Inl (Error ''Unable to read temperature from system''), s)"
| "fallback_chain env (p # ps) s =
     (if is_failed p (failedMethods s) then fallback_chain env ps s
      else (case invoke p env s of
              (Inr temp, s') \<Rightarrow> (Inr temp, s'\<lparr>workingMethod := Some (method_name p)\<rparr>)
            | (Inl e, s') \<Rightarrow>
                fallback_chain env ps (s'\<lparr>failedMethods := mark_failed p (failedMethods s')\<rparr>)))"

section \<open>Well-formed probe output\<close>

text \<open>
  \<open>is_decimal d ip fp\<close>: the text \<open>d\<close> is a decimal numeral with integer digits \<open>ip\<close>
  and fraction digits \<open>fp\<close>, written without a full stop (\<open>45\<close>) or with one
  (\<open>45.6\<close>, \<open>45.\<close>, \<open>.6\<close>).  \<open>decimal_number ip fp\<close> is the JavaScript number it
  denotes: the double nearest to the digits of \<open>ip\<close> and \<open>fp\<close> read as one natural
  number and divided by ten to the length of \<open>fp\<close>.
\<close>

definition is_decimal :: "jsstring \<Rightarrow> jsstring \<Rightarrow> jsstring \<Rightarrow> bool" where
  "is_decimal d ip fp =
     (list_all isDigit ip \<and> list_all isDigit fp
      \<and> (if fp = [] \<and> ip \<noteq> [] then d = ip \<or> d = ip @ [46]
         else fp \<noteq> [] \<and> d = ip @ 46 # fp))"

definition decimal_number :: "jsstring \<Rightarrow> jsstring \<Rightarrow> jsnum" where
  "decimal_number ip fp = number_value False (digits_value (ip @ fp)) (10 ^ length fp)"

text \<open>
  \<open>first_match m pre s\<close>: in the text \<open>pre @ s\<close> the pattern \<open>m\<close> matches at no position
  inside \<open>pre\<close>, so a match that starts where \<open>s\<close> starts is the leftmost one.
\<close>

definition first_match :: "(jsstring \<Rightarrow> 'a option) \<Rightarrow> jsstring \<Rightarrow> jsstring \<Rightarrow> bool" where
  "first_match m pre s = list_all (\<lambda>i. m (drop i (pre @ s)) = None) [0..<length pre]"

text \<open>
  \<open>number_prefix s\<close>: after white space and an optional sign, the text \<open>s\<close> starts with
  \<open>Infinity\<close>, with a digit, or with a full stop and a digit.
\<close>

definition number_prefix :: "jsstring \<Rightarrow> bool" where
  "number_prefix s =
     (let t = dropWhile isWhiteSpace s;
          u = (case t of c # r \<Rightarrow> if c = 43 \<or> c = 45 then r else t | [] \<Rightarrow> t)
      in take 8 u = js ''Infinity''
         \<or> (case u of
               [] \<Rightarrow> False
             | c # r \<Rightarrow> isDigit c \<or> (c = 46 \<and> (case r of [] \<Rightarrow> False | d # _ \<Rightarrow> isDigit d))))"

text \<open>The character after a numeral does not continue it.\<close>

definition ends_numeral :: "jsstring \<Rightarrow> bool" where
  "ends_numeral rest =
     (case rest of [] \<Rightarrow> True | c # _ \<Rightarrow> \<not> isDigit c \<and> c \<noteq> 46 \<and> c \<noteq> 101 \<and> c \<noteq> 69)"

section \<open>Sample environments and states\<close>

text \<open>
  A command that cannot be run, and three hosts: a Raspberry Pi, on which \<open>vcgencmd\<close>
  and the thermal zone both answer; a PC on which only \<open>sensors\<close> answers; and a host
  on which no command works.
\<close>

definition command_fails :: exec_result where
  "command_fails = \<lparr> exec_error = Some (Error ''Command failed''), stdout = [] \<rparr>"

definition prints :: "jsstring \<Rightarrow> exec_result" where
  "prints out = \<lparr> exec_error = None, stdout = out \<rparr>"

definition pi_env :: cycle_env where
  "pi_env =
     \<lparr> exec_outcome = (\<lambda>cmd.
         if cmd = ''vcgencmd measure_temp'' then prints (js ''temp=45.6'' @ [39, 67, 10])
         else if cmd = ''cat /sys/class/thermal/thermal_zone0/temp'' then prints (js ''42123'' @ [10])
         else command_fails),
       date_now = 1000 \<rparr>"

definition pc_env :: cycle_env where
  "pc_env =
     \<lparr> exec_outcome = (\<lambda>cmd.
         if cmd = ''sensors -A 2>&1'' then prints (js ''Core 0: +38.0'' @ [176, 67, 10])
         else command_fails),
       date_now = 2000 \<rparr>"

definition bare_env :: cycle_env where
  "bare_env = \<lparr> exec_outcome = (\<lambda>cmd. command_fails), date_now = 3000 \<rparr>"

text \<open>The doubles nearest to 45.6, 42.123 and 38.\<close>

definition deg_45_6 :: jsnum where
  "deg_45_6 = Finite False 6417629469002957 (- 47)"

definition deg_42_123 :: jsnum where
  "deg_42_123 = Finite False 5928285221991481 (- 47)"

definition deg_38 :: jsnum where
  "deg_38 = Finite False 5348024557502464 (- 47)"

text \<open>\<open>workingMethod\<close> holds one of the three method names.\<close>

definition known :: "string option \<Rightarrow> bool" where
  "known w = (w = Some ''vcgencmd'' \<or> w = Some ''thermal_zone'' \<or> w = Some ''sensors'')"


section \<open>Facts about the probes and the coordinator\<close>

lemma tryVcgencmd_eq:
  "tryVcgencmd env s =
     (vcgencmd_callback (exec_outcome env ''vcgencmd measure_temp''),
      s\<lparr>execLog := execLog s @ [''vcgencmd measure_temp'']\<rparr>)"
  by (simp add: tryVcgencmd_def exec_def)

lemma tryThermalZone_eq:
  "tryThermalZone env s =
     (thermal_zone_callback (exec_outcome env ''cat /sys/class/thermal/thermal_zone0/temp''),
      s\<lparr>execLog := execLog s @ [''cat /sys/class/thermal/thermal_zone0/temp'']\<rparr>)"
  by (simp add: tryThermalZone_def exec_def)

lemma trySensors_eq:
  "trySensors env s =
     (sensors_callback (exec_outcome env ''sensors -A 2>&1''),
      s\<lparr>execLog := execLog s @ [''sensors -A 2>&1'']\<rparr>)"
  by (simp add: trySensors_def exec_def)

lemma invoke_eq:
  "invoke p env s = (outcome p env, s\<lparr>execLog := execLog s @ [command p]\<rparr>)"
  by (cases p) (simp_all add: outcome_def tryVcgencmd_eq tryThermalZone_eq trySensors_eq)

lemma chain_Nil:
  assumes "vcgencmd (failedMethods s)" "thermal_zone (failedMethods s)" "sensors (failedMethods s)"
  shows "tryNextMethod env s = (Inl (Error ''Unable to read temperature from system''), s)"
  using assms by (subst tryNextMethod.simps) simp

lemma chain_C:
  assumes "vcgencmd (failedMethods s)" "thermal_zone (failedMethods s)"
  shows "tryNextMethod env s = fallback_chain env [ProbeC] s"
proof (cases "sensors (failedMethods s)")
  case True
  with assms show ?thesis by (simp add: chain_Nil)
next
  case False
  with assms show ?thesis
    by (subst tryNextMethod.simps) (simp add: trySensors_eq chain_Nil split: sum.splits)
qed

lemma chain_BC:
  assumes "vcgencmd (failedMethods s)"
  shows "tryNextMethod env s = fallback_chain env [ProbeB, ProbeC] s"
proof (cases "thermal_zone (failedMethods s)")
  case True
  with assms show ?thesis by (simp add: chain_C)
next
  case False
  with assms show ?thesis
    by (subst tryNextMethod.simps) (simp add: tryThermalZone_eq chain_C split: sum.splits)
qed

lemma chain_ABC:
  "tryNextMethod env s = fallback_chain env [ProbeA, ProbeB, ProbeC] s"
proof (cases "vcgencmd (failedMethods s)")
  case True
  then show ?thesis by (simp add: chain_BC)
next
  case False
  then show ?thesis
    by (subst tryNextMethod.simps) (simp add: tryVcgencmd_eq chain_BC split: sum.splits)
qed

lemma chain_closed_form:
  assumes "distinct ps"
  shows "fallback_chain env ps s =
     (let cands = filter (\<lambda>p. \<not> is_failed p (failedMethods s)) ps;
          fs = takeWhile (\<lambda>p. isl (outcome p env)) cands;
          rest = dropWhile (\<lambda>p. isl (outcome p env)) cands;
          s1 = s\<lparr>execLog := execLog s @ map command (fs @ take 1 rest),
                 failedMethods := fold mark_failed fs (failedMethods s)\<rparr>
      in case rest of
           [] \<Rightarrow> (Inl (Error ''Unable to read temperature from system''), s1)
         | p # _ \<Rightarrow> (outcome p env, s1\<lparr>workingMethod := Some (method_name p)\<rparr>))"
  using assms
proof (induction ps arbitrary: s)
  case Nil
  show ?case by simp
next
  case (Cons p ps)
  have keep: "\<And>q f. q \<noteq> p \<Longrightarrow> is_failed q (mark_failed p f) = is_failed q f"
    subgoal for q f by (cases p; cases q) simp_all
    done
  have filt: "\<And>f. filter (\<lambda>q. \<not> is_failed q (mark_failed p f)) ps = filter (\<lambda>q. \<not> is_failed q f) ps"
    using Cons.prems keep by (intro filter_cong refl) (metis distinct.simps(2))
  show ?case
  proof (cases "is_failed p (failedMethods s)")
    case True
    with Cons show ?thesis by simp
  next
    case False
    show ?thesis
    proof (cases "outcome p env")
      case (Inl e)
      define s' where
        "s' = s\<lparr>execLog := execLog s @ [command p],
                 failedMethods := mark_failed p (failedMethods s)\<rparr>"
      have step: "fallback_chain env (p # ps) s = fallback_chain env ps s'"
        using False Inl by (simp add: invoke_eq s'_def)
      have cands: "filter (\<lambda>q. \<not> is_failed q (failedMethods s)) (p # ps) =
                   p # filter (\<lambda>q. \<not> is_failed q (failedMethods s')) ps"
        using False by (simp add: s'_def filt)
      from Cons.prems have "distinct ps" by simp
      note IH = Cons.IH [OF this, of s']
      show ?thesis
        unfolding step cands IH using Inl
        by (cases "dropWhile (\<lambda>p. isl (outcome p env))
                     (filter (\<lambda>q. \<not> is_failed q (failedMethods s')) ps)")
           (simp_all add: Let_def s'_def del: dropWhile_eq_Nil_conv)
    next
      case (Inr t)
      with False show ?thesis by (simp add: invoke_eq)
    qed
  qed
qed



lemma chain_frame:
  "consoleLogged (snd (fallback_chain env ps s)) = consoleLogged s"
  "temperatureSupported (snd (fallback_chain env ps s)) = temperatureSupported s"
  "updateIntervalId (snd (fallback_chain env ps s)) = updateIntervalId s"
  "liveTimers (snd (fallback_chain env ps s)) = liveTimers s"
  "currentTemperature (snd (fallback_chain env ps s)) = currentTemperature s"
  by (induction ps arbitrary: s; simp add: invoke_eq split: sum.splits)+

lemma mark_failed_mono: "is_failed q f \<Longrightarrow> is_failed q (mark_failed p f)"
  by (cases p; cases q) simp_all

lemma chain_failed_mono:
  "is_failed q (failedMethods s) \<Longrightarrow> is_failed q (failedMethods (snd (fallback_chain env ps s)))"
  by (induction ps arbitrary: s) (simp_all add: invoke_eq mark_failed_mono split: sum.splits)

lemma known_iff: "known w \<longleftrightarrow> (\<exists>p. w = Some (method_name p))"
proof
  assume "known w"
  then consider "w = Some (method_name ProbeA)" | "w = Some (method_name ProbeB)"
    | "w = Some (method_name ProbeC)"
    by (auto simp: known_def)
  then show "\<exists>p. w = Some (method_name p)" by cases blast+
next
  assume "\<exists>p. w = Some (method_name p)"
  then obtain p where "w = Some (method_name p)" ..
  then show "known w" by (cases p) (simp_all add: known_def)
qed

lemma read_direct:
  "workingMethod s = Some (method_name p) \<Longrightarrow> readTemperature env s = invoke p env s"
  by (cases p) (simp_all add: readTemperature_def)

lemma read_chain:
  "\<not> known (workingMethod s) \<Longrightarrow>
   readTemperature env s = fallback_chain env [ProbeA, ProbeB, ProbeC] s"
  by (auto simp: readTemperature_def known_def chain_ABC split: option.splits)

lemma read_cases:
  obtains (direct) p where "workingMethod s = Some (method_name p)"
      and "readTemperature env s = (outcome p env, s\<lparr>execLog := execLog s @ [command p]\<rparr>)"
    | (chain) "\<not> known (workingMethod s)"
      and "readTemperature env s = fallback_chain env [ProbeA, ProbeB, ProbeC] s"
proof (cases "known (workingMethod s)")
  case True
  then obtain p where "workingMethod s = Some (method_name p)" by (auto simp: known_iff)
  then show ?thesis using direct by (simp add: read_direct invoke_eq)
next
  case False
  with read_chain [of s env] show ?thesis using chain by blast
qed

lemma read_frame:
  "consoleLogged (snd (readTemperature env s)) = consoleLogged s"
  "temperatureSupported (snd (readTemperature env s)) = temperatureSupported s"
  "updateIntervalId (snd (readTemperature env s)) = updateIntervalId s"
  "liveTimers (snd (readTemperature env s)) = liveTimers s"
  "currentTemperature (snd (readTemperature env s)) = currentTemperature s"
  by (cases rule: read_cases [of s env]; simp only: chain_frame; simp)+

lemma read_failed_mono:
  assumes "is_failed q (failedMethods s)"
  shows "is_failed q (failedMethods (snd (readTemperature env s)))"
proof (cases rule: read_cases [of s env])
  case (direct p)
  with assms show ?thesis by simp
next
  case chain
  with assms show ?thesis by (simp only: chain_failed_mono)
qed

lemma chain_working:
  "fst (fallback_chain env ps s) = Inr t \<Longrightarrow>
   \<exists>p. workingMethod (snd (fallback_chain env ps s)) = Some (method_name p)"
  by (induction ps arbitrary: s) (auto simp: invoke_eq split: sum.splits if_splits)

lemma chain_working_fail:
  "fst (fallback_chain env ps s) = Inl e \<Longrightarrow>
   workingMethod (snd (fallback_chain env ps s)) = workingMethod s"
  by (induction ps arbitrary: s) (auto simp: invoke_eq split: sum.splits if_splits)

lemma read_known_after:
  assumes "known (workingMethod s) \<or> fst (readTemperature env s) = Inr t"
  shows "known (workingMethod (snd (readTemperature env s)))"
proof (cases rule: read_cases [of s env])
  case (direct p)
  then show ?thesis by (auto simp: known_iff)
next
  case chain
  with assms have "fst (fallback_chain env [ProbeA, ProbeB, ProbeC] s) = Inr t" by simp
  from chain_working [OF this] show ?thesis by (simp only: chain known_iff)
qed

lemma update_fields:
  "temperatureSupported s \<Longrightarrow> consoleLogged (updateTemperature env s)"
  "failedMethods (updateTemperature env s) =
     (if temperatureSupported s then failedMethods (snd (readTemperature env s)) else failedMethods s)"
  "workingMethod (updateTemperature env s) =
     (if temperatureSupported s then workingMethod (snd (readTemperature env s)) else workingMethod s)"
  "execLog (updateTemperature env s) =
     (if temperatureSupported s then execLog (snd (readTemperature env s)) else execLog s)"
  "temperatureSupported (updateTemperature env s) =
     (temperatureSupported s \<and> (consoleLogged s \<or> \<not> isl (fst (readTemperature env s))))"
  by (cases "readTemperature env s"; cases "fst (readTemperature env s)";
      use read_frame [of env s] in
        \<open>auto simp: updateTemperature_def updateTemperature_callback_def Let_def
           split: option.splits\<close>)+


lemmas number_eval =
  number_value_def ilog2_def bits.simps round_half_even_def Let_def

lemmas parse_eval =
  parseFloat_def parse_unsigned_def scaled_def exponent_part_def digits_value_def js_def
  isDigit_def isDigitOrDot_def isWhiteSpace_def

lemma sample_numbers:
  "number_value False 456 10 = deg_45_6"
  "number_value False 42123 1 = Finite False 5789341037101056 (- 37)"
  "number_value False 5789341037101056 (1000 * 2 ^ 37) = deg_42_123"
  "number_value False 42123 1000 = deg_42_123"
  "number_value False 380 10 = deg_38"
  "number_value False 38 1 = deg_38"
  by (simp_all add: number_eval deg_45_6_def deg_42_123_def deg_38_def)

lemma outcome_pi:
  "outcome ProbeA pi_env = Inr deg_45_6"
  "outcome ProbeB pi_env = Inr deg_42_123"
  "outcome ProbeC pi_env = Inl (Error ''sensors failed'')"
  by (simp_all add: outcome_def tryVcgencmd_eq tryThermalZone_eq trySensors_eq pi_env_def
      prints_def command_fails_def vcgencmd_callback_def thermal_zone_callback_def
      sensors_callback_def temp_here_def parse_eval number_eval isNaN_def
      deg_45_6_def deg_42_123_def)

lemma outcome_pc:
  "outcome ProbeA pc_env = Inl (Error ''vcgencmd failed'')"
  "outcome ProbeB pc_env = Inl (Error ''thermal_zone0 failed'')"
  "outcome ProbeC pc_env = Inr deg_38"
  by (simp_all add: outcome_def tryVcgencmd_eq tryThermalZone_eq trySensors_eq pc_env_def
      prints_def command_fails_def vcgencmd_callback_def thermal_zone_callback_def
      sensors_callback_def core_here_def parse_eval number_eval deg_38_def)

lemma outcome_bare:
  "outcome ProbeA bare_env = Inl (Error ''vcgencmd failed'')"
  "outcome ProbeB bare_env = Inl (Error ''thermal_zone0 failed'')"
  "outcome ProbeC bare_env = Inl (Error ''sensors failed'')"
  by (simp_all add: outcome_def tryVcgencmd_eq tryThermalZone_eq trySensors_eq bare_env_def
      command_fails_def vcgencmd_callback_def thermal_zone_callback_def sensors_callback_def)

section \<open>The coordinator's claims\<close>

text \<open>
  C5.  When \<open>workingMethod\<close> is unset and all three flags of \<open>failedMethods\<close> are set,
  \<open>readTemperature\<close> reports the exhaustion error (its message is
  \<open>Unable to read temperature from system\<close>) and leaves the state as it was; in
  particular it hands no command to \<open>exec\<close>, so no probe runs.
\<close>

theorem exhaustion_without_probe:
  assumes "workingMethod s = None"
    and "vcgencmd (failedMethods s)" and "thermal_zone (failedMethods s)"
    and "sensors (failedMethods s)"
  shows "readTemperature env s = (Inl (Error ''Unable to read temperature from system''), s)
       \<and> execLog (snd (readTemperature env s)) = execLog s"
  using assms by (simp add: readTemperature_def chain_Nil)

theorem exhaustion_without_probe_witness:
  "readTemperature pi_env (initial\<lparr>failedMethods := \<lparr>vcgencmd = True, thermal_zone = True, sensors = True\<rparr>\<rparr>)
     = (Inl (Error ''Unable to read temperature from system''),
        initial\<lparr>failedMethods := \<lparr>vcgencmd = True, thermal_zone = True, sensors = True\<rparr>\<rparr>)
   \<and> execLog (snd (readTemperature pi_env
         (initial\<lparr>failedMethods := \<lparr>vcgencmd = True, thermal_zone = True, sensors = True\<rparr>\<rparr>))) = []"
  using exhaustion_without_probe
    [of "initial\<lparr>failedMethods := \<lparr>vcgencmd = True, thermal_zone = True, sensors = True\<rparr>\<rparr>" pi_env]
  by (simp add: initial_def)

text \<open>
  C1.  A cycle that starts with \<open>workingMethod\<close> unset does what the fallback chain of
  the specification does on the order vcgencmd, thermal zone, sensors.  Spelled out: the
  candidates are the probes whose flag is clear, in that order; the probes that run are
  the candidates up to and including the first that succeeds; each candidate that failed
  before it has its flag set; the first success becomes \<open>workingMethod\<close> and its value
  is the result; with no success the result is the exhaustion error and \<open>workingMethod\<close>
  stays unset.
\<close>

theorem fallback_order:
  assumes "workingMethod s = None"
  shows "readTemperature env s = fallback_chain env [ProbeA, ProbeB, ProbeC] s
       \<and> readTemperature env s =
          (let cands = filter (\<lambda>p. \<not> is_failed p (failedMethods s)) [ProbeA, ProbeB, ProbeC];
               fs = takeWhile (\<lambda>p. isl (outcome p env)) cands;
               rest = dropWhile (\<lambda>p. isl (outcome p env)) cands;
               s1 = s\<lparr>execLog := execLog s @ map command (fs @ take 1 rest),
                      failedMethods := fold mark_failed fs (failedMethods s)\<rparr>
           in case rest of
                [] \<Rightarrow> (Inl (Error ''Unable to read temperature from system''), s1)
              | p # _ \<Rightarrow> (outcome p env, s1\<lparr>workingMethod := Some (method_name p)\<rparr>))"
proof -
  have "readTemperature env s = fallback_chain env [ProbeA, ProbeB, ProbeC] s"
    using assms by (simp add: readTemperature_def chain_ABC)
  moreover have "distinct [ProbeA, ProbeB, ProbeC]" by simp
  ultimately show ?thesis by (simp only: chain_closed_form simp_thms)
qed

theorem fallback_order_witness:
  "readTemperature pc_env (initial\<lparr>failedMethods := \<lparr>vcgencmd = True, thermal_zone = False, sensors = False\<rparr>\<rparr>)
     = (Inr deg_38,
        initial\<lparr>failedMethods := \<lparr>vcgencmd = True, thermal_zone = True, sensors = False\<rparr>,
                workingMethod := Some ''sensors'',
                execLog := [''cat /sys/class/thermal/thermal_zone0/temp'', ''sensors -A 2>&1'']\<rparr>)"
proof -
  let ?s = "initial\<lparr>failedMethods := \<lparr>vcgencmd = True, thermal_zone = False, sensors = False\<rparr>\<rparr>"
  have "workingMethod ?s = None" by (simp add: initial_def)
  from fallback_order [OF this, of pc_env, THEN conjunct2]
  show ?thesis by (simp add: outcome_pc initial_def)
qed

text \<open>
  C3.  A cycle that starts with \<open>workingMethod\<close> set to a probe runs that probe and
  nothing else: one command goes to \<open>exec\<close>, the result is that probe's, and it is the
  same whatever \<open>failedMethods\<close> holds.  Whether the probe succeeds or fails,
  \<open>workingMethod\<close> and \<open>failedMethods\<close> are the same after \<open>readTemperature\<close> and
  after the whole \<open>updateTemperature\<close> cycle.
\<close>

theorem working_method_only:
  assumes "workingMethod s = Some (method_name p)"
  shows "readTemperature env s = invoke p env s
       \<and> readTemperature env s = (outcome p env, s\<lparr>execLog := execLog s @ [command p]\<rparr>)
       \<and> fst (readTemperature env (s\<lparr>failedMethods := f\<rparr>)) = fst (readTemperature env s)
       \<and> workingMethod (snd (readTemperature env s)) = workingMethod s
       \<and> failedMethods (snd (readTemperature env s)) = failedMethods s
       \<and> workingMethod (updateTemperature env s) = workingMethod s
       \<and> failedMethods (updateTemperature env s) = failedMethods s"
proof -
  have r: "readTemperature env s = invoke p env s" using assms by (rule read_direct)
  have "workingMethod (s\<lparr>failedMethods := f\<rparr>) = Some (method_name p)" using assms by simp
  then have r': "readTemperature env (s\<lparr>failedMethods := f\<rparr>) = invoke p env (s\<lparr>failedMethods := f\<rparr>)"
    by (rule read_direct)
  show ?thesis by (simp add: r r' invoke_eq update_fields)
qed

theorem working_method_only_witness:
  "readTemperature bare_env (initial\<lparr>workingMethod := Some ''thermal_zone''\<rparr>)
     = (Inl (Error ''thermal_zone0 failed''),
        initial\<lparr>workingMethod := Some ''thermal_zone'',
                execLog := [''cat /sys/class/thermal/thermal_zone0/temp'']\<rparr>)
   \<and> workingMethod (updateTemperature bare_env (initial\<lparr>workingMethod := Some ''thermal_zone''\<rparr>))
       = Some ''thermal_zone''
   \<and> failedMethods (updateTemperature bare_env (initial\<lparr>workingMethod := Some ''thermal_zone''\<rparr>))
       = \<lparr>vcgencmd = False, thermal_zone = False, sensors = False\<rparr>"
proof -
  let ?s = "initial\<lparr>workingMethod := Some ''thermal_zone''\<rparr>"
  have "workingMethod ?s = Some (method_name ProbeB)" by simp
  from working_method_only [OF this, where env = bare_env and f = "failedMethods initial"]
  have "readTemperature bare_env ?s = (outcome ProbeB bare_env, ?s\<lparr>execLog := execLog ?s @ [command ProbeB]\<rparr>)"
    and "workingMethod (updateTemperature bare_env ?s) = workingMethod ?s"
    and "failedMethods (updateTemperature bare_env ?s) = failedMethods ?s"
    by blast+
  then show ?thesis by (simp add: outcome_bare initial_def)
qed

section \<open>The scheduler's claims\<close>

lemma update_unsupported: "\<not> temperatureSupported s \<Longrightarrow> updateTemperature env s = s"
  by (simp add: updateTemperature_def)

lemma update_cache:
  "currentTemperature (updateTemperature env s) =
     (if \<not> temperatureSupported s then currentTemperature s
      else case fst (readTemperature env s) of
             Inl e \<Rightarrow> \<lparr> temperature = None, timestamp = Some (date_now env), unit = ''C'',
                        error = Some (message e) \<rparr>
           | Inr t \<Rightarrow> \<lparr> temperature = Some t, timestamp = Some (date_now env), unit = ''C'',
                        error = None \<rparr>)"
  by (cases "readTemperature env s"; cases "fst (readTemperature env s)")
     (auto simp: updateTemperature_def updateTemperature_callback_def Let_def
           split: option.splits)

lemma update_timer:
  "liveTimers (updateTemperature env s) =
     (if temperatureSupported s \<and> \<not> consoleLogged s \<and> isl (fst (readTemperature env s))
      then (case updateIntervalId s of Some i \<Rightarrow> removeAll i (liveTimers s) | None \<Rightarrow> liveTimers s)
      else liveTimers s)"
  "updateIntervalId (updateTemperature env s) =
     (if temperatureSupported s \<and> \<not> consoleLogged s \<and> isl (fst (readTemperature env s))
      then None else updateIntervalId s)"
  by (cases "readTemperature env s"; cases "fst (readTemperature env s)";
      use read_frame [of env s] in
        \<open>auto simp: updateTemperature_def updateTemperature_callback_def Let_def
           split: option.splits\<close>)+

lemma module_body_fields:
  "temperatureSupported module_body" "\<not> consoleLogged module_body"
  "workingMethod module_body = None" "liveTimers module_body = [1]"
  "updateIntervalId module_body = Some 1"
  "failedMethods module_body = \<lparr> vcgencmd = False, thermal_zone = False, sensors = False \<rparr>"
  by (simp_all add: module_body_def initial_def)

lemma run_Nil: "run env0 [] = module_init env0"
  by (simp add: run_def)

lemma run_snoc: "run env0 (evs @ [ev]) = step ev (run env0 evs)"
  by (simp add: run_def)

lemma run_append: "run env0 (evs @ evs') = foldl (\<lambda>s e. step e s) (run env0 evs) evs'"
  by (simp add: run_def)

lemma step_failed_mono:
  "is_failed p (failedMethods s) \<Longrightarrow> is_failed p (failedMethods (step ev s))"
  by (cases ev) (simp_all add: update_fields read_failed_mono)

lemma steps_failed_mono:
  "is_failed p (failedMethods s) \<Longrightarrow> is_failed p (failedMethods (foldl (\<lambda>s e. step e s) s evs))"
  by (induction evs arbitrary: s) (simp_all add: step_failed_mono)

text \<open>
  C9.  A flag of \<open>failedMethods\<close> that is set stays set: through
  \<open>readTemperature\<close>, through a whole \<open>updateTemperature\<close> cycle, through any single
  event (a timer tick or a request to the endpoint) and through any sequence of events,
  from any state; so also along every continuation of a run of the process.
\<close>

theorem failedMethods_never_cleared:
  assumes "is_failed p (failedMethods s)"
  shows "is_failed p (failedMethods (snd (readTemperature env s)))
       \<and> is_failed p (failedMethods (updateTemperature env s))
       \<and> is_failed p (failedMethods (step ev s))
       \<and> is_failed p (failedMethods (foldl (\<lambda>s e. step e s) s evs))
       \<and> (s = run env0 evs0 \<longrightarrow> is_failed p (failedMethods (run env0 (evs0 @ evs))))"
proof -
  have "s = run env0 evs0 \<longrightarrow> is_failed p (failedMethods (run env0 (evs0 @ evs)))"
    using assms by (auto simp: run_append intro: steps_failed_mono)
  with assms show ?thesis
    by (simp add: read_failed_mono update_fields step_failed_mono steps_failed_mono)
qed

lemmas probe_eval =
  invoke_eq [of ProbeA, simplified] invoke_eq [of ProbeB, simplified]
  invoke_eq [of ProbeC, simplified]

lemma read_initially:
  "readTemperature env module_body = fallback_chain env [ProbeA, ProbeB, ProbeC] module_body"
  by (simp add: read_chain module_body_fields known_def)

lemma read_bare:
  "readTemperature bare_env module_body =
     (Inl (Error ''Unable to read temperature from system''),
      module_body\<lparr>execLog := [''vcgencmd measure_temp'',
                                ''cat /sys/class/thermal/thermal_zone0/temp'', ''sensors -A 2>&1''],
                   failedMethods := \<lparr> vcgencmd = True, thermal_zone = True, sensors = True \<rparr>\<rparr>)"
  by (simp add: read_initially probe_eval outcome_bare module_body_fields)
     (simp add: module_body_def initial_def)

lemma first_cycle_bare:
  "module_init bare_env =
     \<lparr> consoleLogged = True, temperatureSupported = False, updateIntervalId = None,
       failedMethods = \<lparr> vcgencmd = True, thermal_zone = True, sensors = True \<rparr>,
       workingMethod = None,
       currentTemperature =
         \<lparr> temperature = None, timestamp = Some 3000, unit = ''C'',
           error = Some ''Unable to read temperature from system'' \<rparr>,
       execLog = [''vcgencmd measure_temp'', ''cat /sys/class/thermal/thermal_zone0/temp'',
                  ''sensors -A 2>&1''],
       liveTimers = [] \<rparr>"
  by (simp add: module_init_def updateTemperature_def read_bare module_body_fields
      updateTemperature_callback_def)
     (simp add: module_body_def initial_def bare_env_def)

lemma read_pi:
  "readTemperature pi_env module_body =
     (Inr deg_45_6,
      module_body\<lparr>execLog := [''vcgencmd measure_temp''], workingMethod := Some ''vcgencmd''\<rparr>)"
  by (simp add: read_initially probe_eval outcome_pi module_body_fields)
     (simp add: module_body_def initial_def)

lemma first_cycle_pi:
  "module_init pi_env =
     \<lparr> consoleLogged = True, temperatureSupported = True, updateIntervalId = Some 1,
       failedMethods = \<lparr> vcgencmd = False, thermal_zone = False, sensors = False \<rparr>,
       workingMethod = Some ''vcgencmd'',
       currentTemperature =
         \<lparr> temperature = Some deg_45_6, timestamp = Some 1000, unit = ''C'',
           error = None \<rparr>,
       execLog = [''vcgencmd measure_temp''],
       liveTimers = [1] \<rparr>"
  by (simp add: module_init_def updateTemperature_def read_pi module_body_fields
      updateTemperature_callback_def)
     (simp add: module_body_def initial_def pi_env_def)

theorem failedMethods_never_cleared_witness:
  "is_failed ProbeA (failedMethods (run bare_env []))
   \<and> is_failed ProbeA (failedMethods (run bare_env [Tick pi_env, Request None, Tick pi_env]))"
proof -
  have a: "is_failed ProbeA (failedMethods (run bare_env []))"
    by (simp add: run_Nil first_cycle_bare)
  from failedMethods_never_cleared [OF a, where evs = "[Tick pi_env, Request None, Tick pi_env]"
      and ?env0.0 = bare_env and ?evs0.0 = "[]"]
  have "is_failed ProbeA (failedMethods (run bare_env ([] @ [Tick pi_env, Request None, Tick pi_env])))"
    by blast
  with a show ?thesis by simp
qed

lemma outcome_not_exhausted:
  "outcome p env \<noteq> Inl (Error ''Unable to read temperature from system'')"
  by (cases p)
     (simp_all add: outcome_def tryVcgencmd_eq tryThermalZone_eq trySensors_eq
        vcgencmd_callback_def thermal_zone_callback_def sensors_callback_def Let_def
        split: option.splits)

lemma chain_fails_exhausted:
  "fst (fallback_chain env ps s) = Inl e \<Longrightarrow> e = Error ''Unable to read temperature from system''"
  by (induction ps arbitrary: s) (auto simp: invoke_eq split: sum.splits if_splits)


lemma disabled_fixed:
  "\<not> temperatureSupported s \<Longrightarrow> foldl (\<lambda>s e. step e s) s evs = s"
proof (induction evs arbitrary: s)
  case Nil
  show ?case by simp
next
  case (Cons ev evs)
  then have "step ev s = s" by (cases ev) (simp_all add: update_unsupported)
  with Cons show ?case by simp
qed

lemma active_step:
  assumes "consoleLogged s" "temperatureSupported s" "known (workingMethod s)"
  shows "consoleLogged (step ev s) \<and> temperatureSupported (step ev s)
       \<and> known (workingMethod (step ev s))
       \<and> liveTimers (step ev s) = liveTimers s
       \<and> updateIntervalId (step ev s) = updateIntervalId s"
proof (cases ev)
  case (Tick env)
  from assms(3) have "known (workingMethod (snd (readTemperature env s)))"
    using read_known_after [of s env] by blast
  with assms Tick show ?thesis by (simp add: update_fields update_timer)
next
  case (Request h)
  with assms show ?thesis by simp
qed

lemma active_steps:
  assumes "consoleLogged s" "temperatureSupported s" "known (workingMethod s)"
  shows "consoleLogged (foldl (\<lambda>s e. step e s) s evs)
       \<and> temperatureSupported (foldl (\<lambda>s e. step e s) s evs)
       \<and> known (workingMethod (foldl (\<lambda>s e. step e s) s evs))
       \<and> liveTimers (foldl (\<lambda>s e. step e s) s evs) = liveTimers s
       \<and> updateIntervalId (foldl (\<lambda>s e. step e s) s evs) = updateIntervalId s"
  using assms
proof (induction evs arbitrary: s)
  case Nil
  then show ?case by simp
next
  case (Cons ev evs)
  from active_step [OF Cons.prems, of ev] Cons.IH [of "step ev s"]
  show ?case by simp
qed

lemma first_cycle_fails:
  assumes "isl (fst (readTemperature env0 module_body))"
  shows "\<not> temperatureSupported (module_init env0)" "liveTimers (module_init env0) = []"
    "updateIntervalId (module_init env0) = None"
  using assms by (simp_all add: module_init_def update_fields update_timer module_body_fields)

lemma first_cycle_succeeds:
  assumes "\<not> isl (fst (readTemperature env0 module_body))"
  shows "consoleLogged (module_init env0)" "temperatureSupported (module_init env0)"
    "known (workingMethod (module_init env0))"
    "liveTimers (module_init env0) = [1]" "updateIntervalId (module_init env0) = Some 1"
proof -
  from assms obtain t where "fst (readTemperature env0 module_body) = Inr t"
    by (cases "fst (readTemperature env0 module_body)") simp_all
  then have "known (workingMethod (snd (readTemperature env0 module_body)))"
    using read_known_after [of module_body env0 t] by blast
  with assms show "consoleLogged (module_init env0)" "temperatureSupported (module_init env0)"
    "known (workingMethod (module_init env0))"
    "liveTimers (module_init env0) = [1]" "updateIntervalId (module_init env0) = Some 1"
    by (simp_all add: module_init_def update_fields update_timer module_body_fields)
qed

lemma run_disabled:
  assumes "isl (fst (readTemperature env0 module_body))"
  shows "run env0 evs = module_init env0"
  unfolding run_def using first_cycle_fails(1) [OF assms] by (rule disabled_fixed)

lemma run_active:
  assumes "\<not> isl (fst (readTemperature env0 module_body))"
  shows "consoleLogged (run env0 evs)" "temperatureSupported (run env0 evs)"
    "known (workingMethod (run env0 evs))"
    "liveTimers (run env0 evs) = [1]" "updateIntervalId (run env0 evs) = Some 1"
  using active_steps [OF first_cycle_succeeds(1-3) [OF assms], of evs]
    first_cycle_succeeds(4,5) [OF assms]
  by (simp_all add: run_def)

text \<open>
  C2.  After the first cycle and any events that follow it, the scheduler is disabled
  (\<open>temperatureSupported\<close> false, no interval timer registered, \<open>updateIntervalId\<close>
  null) exactly when the first cycle failed.  In that case the state, and with it the
  cache, is for ever the one the first cycle left, and \<open>updateTemperature\<close> itself
  returns without doing anything.  When the first cycle succeeded, the
  scheduler stays enabled with its timer registered, the next tick runs a cycle, and a
  tick whose cycle fails writes the error into the cache and leaves the scheduler enabled
  and the timer registered.
\<close>

theorem disabled_iff_first_cycle_fails:
  "((\<not> temperatureSupported (run env0 evs) \<and> liveTimers (run env0 evs) = []
      \<and> updateIntervalId (run env0 evs) = None)
     \<longleftrightarrow> isl (fst (readTemperature env0 module_body)))
   \<and> (isl (fst (readTemperature env0 module_body)) \<longrightarrow>
        run env0 evs = run env0 [] \<and> updateTemperature env (run env0 evs) = run env0 evs)
   \<and> (\<not> isl (fst (readTemperature env0 module_body)) \<longrightarrow>
        temperatureSupported (run env0 evs) \<and> liveTimers (run env0 evs) \<noteq> []
        \<and> run env0 (evs @ [Tick env]) = updateTemperature env (run env0 evs)
        \<and> (\<forall>e. fst (readTemperature env (run env0 evs)) = Inl e \<longrightarrow>
              currentTemperature (run env0 (evs @ [Tick env])) =
                \<lparr> temperature = None, timestamp = Some (date_now env), unit = ''C'',
                  error = Some (message e) \<rparr>
              \<and> temperatureSupported (run env0 (evs @ [Tick env]))
              \<and> liveTimers (run env0 (evs @ [Tick env])) \<noteq> []))"
proof (cases "isl (fst (readTemperature env0 module_body))")
  case True
  from run_disabled [OF True] first_cycle_fails [OF True] True
  show ?thesis by (simp add: run_Nil update_unsupported)
next
  case False
  note act = run_active [OF False]
  have tick: "run env0 (evs @ [Tick env]) = updateTemperature env (run env0 evs)"
    by (simp add: run_snoc act(4) [of evs])
  from False act [of evs] act [of "evs @ [Tick env]"] show ?thesis
    by (simp add: tick [symmetric]) (simp add: tick update_cache)
qed


lemma pi_then_bare:
  "fst (readTemperature bare_env (run pi_env [])) = Inl (Error ''vcgencmd failed'')"
  "run pi_env [Tick bare_env] =
     \<lparr> consoleLogged = True, temperatureSupported = True, updateIntervalId = Some 1,
       failedMethods = \<lparr> vcgencmd = False, thermal_zone = False, sensors = False \<rparr>,
       workingMethod = Some ''vcgencmd'',
       currentTemperature =
         \<lparr> temperature = None, timestamp = Some 3000, unit = ''C'',
           error = Some ''vcgencmd failed'' \<rparr>,
       execLog = [''vcgencmd measure_temp'', ''vcgencmd measure_temp''],
       liveTimers = [1] \<rparr>"
proof -
  let ?s = "module_init pi_env"
  have "workingMethod ?s = Some (method_name ProbeA)" by (simp add: first_cycle_pi)
  from read_direct [OF this, of bare_env]
  have r: "readTemperature bare_env ?s =
      (Inl (Error ''vcgencmd failed''), ?s\<lparr>execLog := execLog ?s @ [''vcgencmd measure_temp'']\<rparr>)"
    by (simp add: probe_eval outcome_bare)
  then show "fst (readTemperature bare_env (run pi_env [])) = Inl (Error ''vcgencmd failed'')"
    by (simp add: run_Nil)
  have "temperatureSupported ?s" "liveTimers ?s \<noteq> []" "consoleLogged ?s"
    by (simp_all add: first_cycle_pi)
  then have "run pi_env [Tick bare_env] =
      ?s\<lparr>execLog := execLog ?s @ [''vcgencmd measure_temp''],
         currentTemperature := \<lparr> temperature = None, timestamp = Some (date_now bare_env),
           unit = ''C'', error = Some ''vcgencmd failed'' \<rparr>\<rparr>"
    by (simp add: run_def updateTemperature_def r updateTemperature_callback_def)
  then show "run pi_env [Tick bare_env] =
     \<lparr> consoleLogged = True, temperatureSupported = True, updateIntervalId = Some 1,
       failedMethods = \<lparr> vcgencmd = False, thermal_zone = False, sensors = False \<rparr>,
       workingMethod = Some ''vcgencmd'',
       currentTemperature =
         \<lparr> temperature = None, timestamp = Some 3000, unit = ''C'',
           error = Some ''vcgencmd failed'' \<rparr>,
       execLog = [''vcgencmd measure_temp'', ''vcgencmd measure_temp''],
       liveTimers = [1] \<rparr>"
    by (simp add: first_cycle_pi bare_env_def)
qed

lemma pi_bare_then_pi:
  "fst (readTemperature pi_env (run pi_env [Tick bare_env])) = Inr deg_45_6"
proof -
  have "workingMethod (run pi_env [Tick bare_env]) = Some (method_name ProbeA)"
    by (simp add: pi_then_bare)
  from read_direct [OF this, of pi_env] show ?thesis by (simp add: probe_eval outcome_pi)
qed

theorem disabled_iff_first_cycle_fails_witness:
  "isl (fst (readTemperature bare_env module_body))
   \<and> \<not> temperatureSupported (run bare_env [Tick pi_env, Tick pi_env])
   \<and> liveTimers (run bare_env [Tick pi_env, Tick pi_env]) = []
   \<and> run bare_env [Tick pi_env, Tick pi_env] = run bare_env []
   \<and> \<not> isl (fst (readTemperature pi_env module_body))
   \<and> currentTemperature (run pi_env ([] @ [Tick bare_env])) =
        \<lparr> temperature = None, timestamp = Some (date_now bare_env), unit = ''C'',
          error = Some (message (Error ''vcgencmd failed'')) \<rparr>
   \<and> temperatureSupported (run pi_env ([] @ [Tick bare_env]))
   \<and> liveTimers (run pi_env ([] @ [Tick bare_env])) \<noteq> []"
proof -
  have f: "isl (fst (readTemperature bare_env module_body))" by (simp add: read_bare)
  have g: "\<not> isl (fst (readTemperature pi_env module_body))" by (simp add: read_pi)
  from disabled_iff_first_cycle_fails [of bare_env "[Tick pi_env, Tick pi_env]" pi_env] f
  have 1: "\<not> temperatureSupported (run bare_env [Tick pi_env, Tick pi_env])
      \<and> liveTimers (run bare_env [Tick pi_env, Tick pi_env]) = []
      \<and> run bare_env [Tick pi_env, Tick pi_env] = run bare_env []"
    by blast
  from disabled_iff_first_cycle_fails [of pi_env "[]" bare_env] g pi_then_bare(1)
  have 2: "currentTemperature (run pi_env ([] @ [Tick bare_env])) =
        \<lparr> temperature = None, timestamp = Some (date_now bare_env), unit = ''C'',
          error = Some (message (Error ''vcgencmd failed'')) \<rparr>
      \<and> temperatureSupported (run pi_env ([] @ [Tick bare_env]))
      \<and> liveTimers (run pi_env ([] @ [Tick bare_env])) \<noteq> []"
    by blast
  from f g 1 2 show ?thesis by blast
qed

lemma step_one_of:
  assumes "(temperature (currentTemperature s) = None) \<noteq> (error (currentTemperature s) = None)"
  shows "(temperature (currentTemperature (step ev s)) = None)
           \<noteq> (error (currentTemperature (step ev s)) = None)"
  using assms by (cases ev) (simp_all add: update_cache split: sum.splits)

lemma steps_one_of:
  assumes "(temperature (currentTemperature s) = None) \<noteq> (error (currentTemperature s) = None)"
  shows "(temperature (currentTemperature (foldl (\<lambda>s e. step e s) s evs)) = None)
           \<noteq> (error (currentTemperature (foldl (\<lambda>s e. step e s) s evs)) = None)"
  using assms
proof (induction evs arbitrary: s)
  case Nil
  then show ?case by simp
next
  case (Cons ev evs)
  from Cons.IH [OF step_one_of [OF Cons.prems, of ev]] show ?case by simp
qed

text \<open>
  C4.  Before the first cycle both \<open>temperature\<close> and \<open>error\<close> of the cache are null.
  A cycle that runs stores either the number it read with a null error, or a null
  temperature with the error's message.  After the first cycle and any events that
  follow it, exactly one of the two fields is null.  (The stored number can be NaN, for
  instance after \<open>temp=.\<close> from \<open>vcgencmd\<close>; NaN is a number, not null.)
\<close>

theorem cache_exactly_one:
  "temperature (currentTemperature initial) = None \<and> error (currentTemperature initial) = None
   \<and> (temperatureSupported s \<longrightarrow>
        (case fst (readTemperature env s) of
           Inr t \<Rightarrow> temperature (currentTemperature (updateTemperature env s)) = Some t
                    \<and> error (currentTemperature (updateTemperature env s)) = None
         | Inl e \<Rightarrow> temperature (currentTemperature (updateTemperature env s)) = None
                    \<and> error (currentTemperature (updateTemperature env s)) = Some (message e)))
   \<and> ((temperature (currentTemperature (run env0 evs)) = None)
          \<noteq> (error (currentTemperature (run env0 evs)) = None))"
proof -
  have "(temperature (currentTemperature (module_init env0)) = None)
          \<noteq> (error (currentTemperature (module_init env0)) = None)"
    by (simp add: module_init_def update_cache module_body_fields split: sum.splits)
  from steps_one_of [OF this, of evs] show ?thesis
    by (simp add: run_def update_cache initial_def split: sum.splits)
qed

theorem cache_exactly_one_witness:
  "temperatureSupported (run pi_env [])
   \<and> temperature (currentTemperature (updateTemperature bare_env (run pi_env []))) = None
   \<and> error (currentTemperature (updateTemperature bare_env (run pi_env [])))
        = Some (message (Error ''vcgencmd failed''))
   \<and> temperature (currentTemperature (run pi_env [Tick bare_env, Tick pi_env])) \<noteq> None
   \<and> error (currentTemperature (run pi_env [Tick bare_env, Tick pi_env])) = None"
proof -
  have a: "temperatureSupported (run pi_env [])" by (simp add: run_Nil first_cycle_pi)
  from cache_exactly_one [of "run pi_env []" bare_env] a
  have 1: "temperature (currentTemperature (updateTemperature bare_env (run pi_env []))) = None
      \<and> error (currentTemperature (updateTemperature bare_env (run pi_env [])))
          = Some (message (Error ''vcgencmd failed''))"
    by (simp add: pi_then_bare(1))
  have "run pi_env [Tick bare_env, Tick pi_env] = step (Tick pi_env) (run pi_env [Tick bare_env])"
    by (simp add: run_def)
  moreover have "temperatureSupported (run pi_env [Tick bare_env])"
    "liveTimers (run pi_env [Tick bare_env]) \<noteq> []"
    by (simp_all add: pi_then_bare)
  ultimately have e: "error (currentTemperature (run pi_env [Tick bare_env, Tick pi_env])) = None"
    by (simp add: update_cache pi_bare_then_pi)
  from cache_exactly_one [of initial pi_env pi_env "[Tick bare_env, Tick pi_env]"]
  have "(temperature (currentTemperature (run pi_env [Tick bare_env, Tick pi_env])) = None)
          \<noteq> (error (currentTemperature (run pi_env [Tick bare_env, Tick pi_env])) = None)"
    by (elim conjE)
  with e a 1 show ?thesis by simp
qed


lemma read_known_not_exhausted:
  assumes "known (workingMethod s)"
  shows "fst (readTemperature env s) \<noteq> Inl (Error ''Unable to read temperature from system'')"
proof (cases rule: read_cases [of s env])
  case (direct p)
  then show ?thesis by (simp add: outcome_not_exhausted)
next
  case chain
  with assms show ?thesis by simp
qed

lemma active_cache_step:
  assumes "temperatureSupported s \<longrightarrow> known (workingMethod s)"
    and "error (currentTemperature s) \<noteq> Some ''Unable to read temperature from system''"
  shows "error (currentTemperature (step ev s)) \<noteq> Some ''Unable to read temperature from system''"
proof (cases ev)
  case (Tick env)
  show ?thesis
  proof (cases "temperatureSupported s")
    case True
    with assms(1) have "fst (readTemperature env s) \<noteq> Inl (Error ''Unable to read temperature from system'')"
      by (simp add: read_known_not_exhausted)
    then have "\<And>e. fst (readTemperature env s) = Inl e \<Longrightarrow>
        message e \<noteq> ''Unable to read temperature from system''"
      subgoal for e by (cases e) auto
      done
    with True assms(2) Tick show ?thesis by (simp add: update_cache split: sum.splits)
  next
    case False
    with assms(2) Tick show ?thesis by (simp add: update_unsupported)
  qed
next
  case (Request h)
  with assms show ?thesis by simp
qed

lemma active_cache_steps:
  assumes "consoleLogged s" "temperatureSupported s" "known (workingMethod s)"
    and "error (currentTemperature s) \<noteq> Some ''Unable to read temperature from system''"
  shows "error (currentTemperature (foldl (\<lambda>s e. step e s) s evs))
           \<noteq> Some ''Unable to read temperature from system''"
  using assms
proof (induction evs arbitrary: s)
  case Nil
  then show ?case by simp
next
  case (Cons ev evs)
  from active_step [OF Cons.prems(1-3), of ev] active_cache_step [of s ev] Cons.prems
  have "consoleLogged (step ev s)" "temperatureSupported (step ev s)"
    "known (workingMethod (step ev s))"
    "error (currentTemperature (step ev s)) \<noteq> Some ''Unable to read temperature from system''"
    by simp_all
  from Cons.IH [OF this] show ?case by simp
qed

text \<open>
  C10.  After the first cycle and any events that follow it, \<open>workingMethod\<close> is set or
  \<open>temperatureSupported\<close> is false.  Hence a later cycle that runs never reports the
  exhaustion error, and whenever the cache holds the exhaustion error it was the first
  cycle that reported it and the process is still in the state that cycle left.
\<close>

theorem exhaustion_only_first_cycle:
  "(workingMethod (run env0 evs) \<noteq> None \<or> \<not> temperatureSupported (run env0 evs))
   \<and> (temperatureSupported (run env0 evs) \<longrightarrow>
        fst (readTemperature env (run env0 evs))
          \<noteq> Inl (Error ''Unable to read temperature from system''))
   \<and> (error (currentTemperature (run env0 evs)) = Some ''Unable to read temperature from system''
        \<longrightarrow> fst (readTemperature env0 module_body)
              = Inl (Error ''Unable to read temperature from system'')
            \<and> run env0 evs = run env0 [])"
proof (cases "isl (fst (readTemperature env0 module_body))")
  case True
  then obtain e where e: "fst (readTemperature env0 module_body) = Inl e"
    by (cases "fst (readTemperature env0 module_body)") simp_all
  then have "fst (fallback_chain env0 [ProbeA, ProbeB, ProbeC] module_body) = Inl e"
    by (simp only: read_initially)
  then have "e = Error ''Unable to read temperature from system''"
    by (rule chain_fails_exhausted)
  with e run_disabled [OF True] first_cycle_fails(1) [OF True] show ?thesis
    by (simp add: run_Nil)
next
  case False
  note act = run_active [OF False]
  have "error (currentTemperature (module_init env0)) = None"
    using False by (cases "fst (readTemperature env0 module_body)")
      (simp_all add: module_init_def update_cache module_body_fields)
  then have "error (currentTemperature (module_init env0))
      \<noteq> Some ''Unable to read temperature from system''"
    by simp
  from active_cache_steps [OF first_cycle_succeeds(1-3) [OF False] this, of evs]
  have "error (currentTemperature (run env0 evs)) \<noteq> Some ''Unable to read temperature from system''"
    by (simp add: run_def)
  with act(3) [of evs] read_known_not_exhausted [of "run env0 evs" env] show ?thesis
    by (auto simp: known_def)
qed

theorem exhaustion_only_first_cycle_witness:
  "error (currentTemperature (run bare_env [Tick pi_env])) = Some ''Unable to read temperature from system''
   \<and> fst (readTemperature bare_env module_body) = Inl (Error ''Unable to read temperature from system'')
   \<and> run bare_env [Tick pi_env] = run bare_env []
   \<and> temperatureSupported (run pi_env [Tick bare_env])
   \<and> workingMethod (run pi_env [Tick bare_env]) \<noteq> None
   \<and> fst (readTemperature bare_env (run pi_env [Tick bare_env]))
        \<noteq> Inl (Error ''Unable to read temperature from system'')"
proof -
  have "run bare_env [Tick pi_env] = module_init bare_env"
    by (simp add: run_def first_cycle_bare)
  then have a: "error (currentTemperature (run bare_env [Tick pi_env]))
      = Some ''Unable to read temperature from system''"
    by (simp add: first_cycle_bare)
  from exhaustion_only_first_cycle [of bare_env "[Tick pi_env]" pi_env] a
  have 1: "fst (readTemperature bare_env module_body)
        = Inl (Error ''Unable to read temperature from system'')
      \<and> run bare_env [Tick pi_env] = run bare_env []"
    by (elim conjE) simp
  have b: "temperatureSupported (run pi_env [Tick bare_env])" by (simp add: pi_then_bare)
  from exhaustion_only_first_cycle [of pi_env "[Tick bare_env]" bare_env] b
  have 2: "workingMethod (run pi_env [Tick bare_env]) \<noteq> None
      \<and> fst (readTemperature bare_env (run pi_env [Tick bare_env]))
          \<noteq> Inl (Error ''Unable to read temperature from system'')"
    by (elim conjE) simp
  from a 1 b 2 show ?thesis by simp
qed

section \<open>The parsers' claim\<close>

lemma class_run:
  assumes "list_all P ds" and "case rest of [] \<Rightarrow> True | c # _ \<Rightarrow> \<not> P c"
  shows "takeWhile P (ds @ rest) = ds" "dropWhile P (ds @ rest) = rest"
  using assms by (auto simp: list_all_iff takeWhile_append2 dropWhile_append2 split: list.splits)

lemma not_digit_simps [simp]:
  "\<not> isDigit 46" "\<not> isDigit 101" "\<not> isDigit 69" "\<not> isDigit 43" "\<not> isDigit 45" "\<not> isDigit 73"
  "\<not> isDigit 58" "\<not> isDigit 176" "\<not> isDigit 39"
  by (simp_all add: isDigit_def)

lemma number_value_not_NaN: "number_value neg num den \<noteq> NaN"
  by (simp add: number_value_def Let_def)

lemma div1000_NaN: "isNaN (div1000 x) \<longleftrightarrow> isNaN x"
  by (cases x) (simp_all add: isNaN_def number_value_not_NaN)

lemma parse_unsigned_decimal:
  assumes "is_decimal d ip fp" and "ends_numeral rest"
  shows "parse_unsigned (d @ rest) = Some (digits_value (ip @ fp), 10 ^ length fp)"
proof -
  from assms(1) have ip: "list_all isDigit ip" and fp: "list_all isDigit fp"
    by (simp_all add: is_decimal_def)
  from assms(2) have r: "case rest of [] \<Rightarrow> True | c # _ \<Rightarrow> \<not> isDigit c"
    and e: "exponent_part rest = 0" and nd: "rest = [] \<or> hd rest \<noteq> 46"
    by (auto simp: ends_numeral_def exponent_part_def split: list.splits)
  from assms(1) consider (int) "d = ip" "ip \<noteq> []" "fp = []"
    | (dot) "d = ip @ 46 # fp" "ip \<noteq> [] \<or> fp \<noteq> []"
    by (auto simp: is_decimal_def split: if_splits)
  then show ?thesis
  proof cases
    case int
    from nd have "\<not> (rest \<noteq> [] \<and> hd rest = 46)" by auto
    with int show ?thesis
      by (auto simp: parse_unsigned_def scaled_def class_run [OF ip r] e)
  next
    case dot
    have "takeWhile isDigit (ip @ (46 # fp @ rest)) = ip"
      "dropWhile isDigit (ip @ (46 # fp @ rest)) = 46 # fp @ rest"
      by (rule class_run [OF ip], simp)+
    with dot show ?thesis
      by (simp add: parse_unsigned_def scaled_def class_run [OF fp r] e)
  qed
qed

lemma decimal_head:
  assumes "is_decimal d ip fp"
  shows "d \<noteq> []" "isDigit (hd d) \<or> hd d = 46"
  using assms by (cases ip; auto simp: is_decimal_def split: if_splits)+

lemma parseFloat_decimal:
  assumes "is_decimal d ip fp" and "ends_numeral rest"
  shows "parseFloat (d @ rest) = decimal_number ip fp"
proof -
  from decimal_head [OF assms(1)] obtain c cs where d: "d = c # cs" and c: "isDigit c \<or> c = 46"
    by (cases d) auto
  from c have "\<not> isWhiteSpace c" "c \<noteq> 43" "c \<noteq> 45" "c \<noteq> 73"
    by (auto simp: isDigit_def isWhiteSpace_def)
  with parse_unsigned_decimal [OF assms] d show ?thesis
    by (simp add: parseFloat_def js_def decimal_number_def)
qed

lemma strip_prefix_append: "strip_prefix p (p @ s) = Some s"
  by (induction p) simp_all

lemma strip_prefix_Some: "strip_prefix p s = Some r \<Longrightarrow> s = p @ r"
  by (induction p s rule: strip_prefix.induct) (auto split: if_splits)

lemma strip_prefix_iff: "strip_prefix p s \<noteq> None \<longleftrightarrow> take (length p) s = p"
  by (induction p s rule: strip_prefix.induct) auto

lemma parse_unsigned_None:
  "parse_unsigned u = None \<longleftrightarrow>
     \<not> (case u of
          [] \<Rightarrow> False
        | c # r \<Rightarrow> isDigit c \<or> (c = 46 \<and> (case r of [] \<Rightarrow> False | d # _ \<Rightarrow> isDigit d)))"
proof (cases u)
  case Nil
  then show ?thesis by (simp add: parse_unsigned_def)
next
  case (Cons c r)
  show ?thesis
  proof (cases "isDigit c")
    case True
    with Cons show ?thesis by (simp add: parse_unsigned_def Let_def)
  next
    case False
    with Cons show ?thesis by (cases r) (simp_all add: parse_unsigned_def Let_def)
  qed
qed

lemma parseFloat_NaN: "isNaN (parseFloat s) \<longleftrightarrow> \<not> number_prefix s"
proof -
  let ?t = "dropWhile isWhiteSpace s"
  let ?u = "case ?t of c # r \<Rightarrow> if c = 43 \<or> c = 45 then r else ?t | [] \<Rightarrow> ?t"
  have len: "length (js ''Infinity'') = 8" by (simp add: js_def)
  show ?thesis
    using strip_prefix_iff [of "js ''Infinity''" ?u] parse_unsigned_None [of ?u]
    unfolding len
    by (auto simp: parseFloat_def number_prefix_def isNaN_def Let_def number_value_not_NaN
        split: option.splits)
qed

lemma search_first:
  assumes "first_match m pre s" and "m s = Some g"
  shows "search m (pre @ s) = Some g"
  using assms
proof (induction pre)
  case Nil
  then show ?case by (cases s) simp_all
next
  case (Cons c pre)
  from Cons.prems(1) have here: "m (c # pre @ s) = None"
  proof -
    have "0 \<in> set [0..<length (c # pre)]" by simp
    with Cons.prems(1) have "m (drop 0 ((c # pre) @ s)) = None"
      unfolding first_match_def list_all_iff by blast
    then show ?thesis by simp
  qed
  from Cons.prems(1) have "first_match m pre s"
    unfolding first_match_def list_all_iff
  proof (intro ballI)
    fix i assume "i \<in> set [0..<length pre]"
    then have "Suc i \<in> set [0..<length (c # pre)]" by simp arith
    with Cons.prems(1) have "m (drop (Suc i) ((c # pre) @ s)) = None"
      unfolding first_match_def list_all_iff by blast
    then show "m (drop i (pre @ s)) = None" by simp
  qed
  with Cons.IH Cons.prems(2) here show ?case by simp
qed


lemma search_None_iff:
  "search m s = None \<longleftrightarrow> (\<forall>i\<le>length s. m (drop i s) = None)"
proof (induction s)
  case Nil
  show ?case by simp
next
  case (Cons c cs)
  have "(\<forall>i\<le>length (c # cs). m (drop i (c # cs)) = None)
      \<longleftrightarrow> m (c # cs) = None \<and> (\<forall>i\<le>length cs. m (drop i cs) = None)"
    (is "?L \<longleftrightarrow> ?R")
  proof
    assume l: ?L
    from l have "m (drop 0 (c # cs)) = None" by blast
    moreover have "\<forall>i\<le>length cs. m (drop i cs) = None"
    proof (intro allI impI)
      fix i assume "i \<le> length cs"
      then have "Suc i \<le> length (c # cs)" by simp
      with l have "m (drop (Suc i) (c # cs)) = None" by blast
      then show "m (drop i cs) = None" by simp
    qed
    ultimately show ?R by simp
  next
    assume r: ?R
    show ?L
    proof (intro allI impI)
      fix i assume i: "i \<le> length (c # cs)"
      show "m (drop i (c # cs)) = None"
      proof (cases i)
        case 0
        with r show ?thesis by simp
      next
        case (Suc j)
        with i r show ?thesis by simp
      qed
    qed
  qed
  with Cons.IH show ?case by (simp split: option.splits)
qed

lemma decimal_class:
  assumes "is_decimal d ip fp"
  shows "list_all isDigitOrDot d" "d \<noteq> []"
  using assms by (auto simp: is_decimal_def isDigitOrDot_def list_all_iff split: if_splits)


lemma search_Some_iff:
  "search m s \<noteq> None \<longleftrightarrow> (\<exists>pre t. s = pre @ t \<and> m t \<noteq> None)"
proof
  assume "search m s \<noteq> None"
  then obtain i where "i \<le> length s" "m (drop i s) \<noteq> None"
    by (auto simp: search_None_iff)
  then have "s = take i s @ drop i s \<and> m (drop i s) \<noteq> None" by simp
  then show "\<exists>pre t. s = pre @ t \<and> m t \<noteq> None" by blast
next
  assume "\<exists>pre t. s = pre @ t \<and> m t \<noteq> None"
  then obtain pre t where s: "s = pre @ t" and t: "m t \<noteq> None" by blast
  have "length pre \<le> length s" "drop (length pre) s = t" by (simp_all add: s)
  with t show "search m s \<noteq> None" by (auto simp: search_None_iff)
qed

lemma temp_here_class:
  assumes "list_all isDigitOrDot g" "g \<noteq> []"
    and "case rest of [] \<Rightarrow> True | c # _ \<Rightarrow> \<not> isDigitOrDot c"
  shows "temp_here (js ''temp='' @ g @ rest) = Some g"
  using assms(2)
  by (simp add: temp_here_def strip_prefix_append class_run [OF assms(1,3)])

lemma temp_here_iff:
  "temp_here s \<noteq> None \<longleftrightarrow> (\<exists>c rest. s = js ''temp='' @ c # rest \<and> isDigitOrDot c)"
proof
  assume "temp_here s \<noteq> None"
  then obtain r where r: "strip_prefix (js ''temp='') s = Some r"
    and t: "takeWhile isDigitOrDot r \<noteq> []"
    by (auto simp: temp_here_def split: option.splits if_splits)
  from t obtain c rest where "r = c # rest" "isDigitOrDot c"
    by (cases r) (auto split: if_splits)
  with strip_prefix_Some [OF r] show "\<exists>c rest. s = js ''temp='' @ c # rest \<and> isDigitOrDot c"
    by blast
next
  assume "\<exists>c rest. s = js ''temp='' @ c # rest \<and> isDigitOrDot c"
  then obtain c rest where "s = js ''temp='' @ c # rest" "isDigitOrDot c" by blast
  then show "temp_here s \<noteq> None" by (simp add: temp_here_def strip_prefix_append)
qed

lemma core_here_class:
  assumes n: "list_all isDigit n" "n \<noteq> []"
    and ws: "list_all isWhiteSpace ws" "ws \<noteq> []"
    and g: "list_all isDigitOrDot g" "g \<noteq> []"
  shows "core_here (js ''Core '' @ n @ 58 # ws @ 43 # g @ 176 # 67 # rest) = Some g"
proof -
  have 1: "takeWhile isDigit (n @ 58 # ws @ 43 # g @ 176 # 67 # rest) = n"
    "dropWhile isDigit (n @ 58 # ws @ 43 # g @ 176 # 67 # rest) = 58 # ws @ 43 # g @ 176 # 67 # rest"
    by (rule class_run [OF n(1)], simp)+
  have 2: "takeWhile isWhiteSpace (ws @ 43 # g @ 176 # 67 # rest) = ws"
    "dropWhile isWhiteSpace (ws @ 43 # g @ 176 # 67 # rest) = 43 # g @ 176 # 67 # rest"
    by (rule class_run [OF ws(1)], simp add: isWhiteSpace_def)+
  have 3: "takeWhile isDigitOrDot (g @ 176 # 67 # rest) = g"
    "dropWhile isDigitOrDot (g @ 176 # 67 # rest) = 176 # 67 # rest"
    by (rule class_run [OF g(1)], simp add: isDigitOrDot_def)+
  from n(2) ws(2) g(2) show ?thesis
    by (simp add: core_here_def strip_prefix_append 1 2 3)
qed

lemma run_split: "xs = takeWhile P xs @ dropWhile P xs" "list_all P (takeWhile P xs)"
  by (simp_all add: list_all_iff) (meson set_takeWhileD)

lemma core_here_iff:
  "core_here s \<noteq> None \<longleftrightarrow>
     (\<exists>n ws g rest. s = js ''Core '' @ n @ 58 # ws @ 43 # g @ 176 # 67 # rest
        \<and> n \<noteq> [] \<and> list_all isDigit n \<and> ws \<noteq> [] \<and> list_all isWhiteSpace ws
        \<and> g \<noteq> [] \<and> list_all isDigitOrDot g)"
proof
  assume "core_here s \<noteq> None"
  then obtain r1 r2 r3 rest where a: "strip_prefix (js ''Core '') s = Some r1"
    and n: "takeWhile isDigit r1 \<noteq> []" and b: "dropWhile isDigit r1 = 58 # r2"
    and w: "takeWhile isWhiteSpace r2 \<noteq> []" and c: "dropWhile isWhiteSpace r2 = 43 # r3"
    and g: "takeWhile isDigitOrDot r3 \<noteq> []"
    and d: "strip_prefix [176, 67] (dropWhile isDigitOrDot r3) = Some rest"
    by (auto simp: core_here_def split: option.splits if_splits list.splits)
  have "s = js ''Core '' @ r1" by (rule strip_prefix_Some [OF a])
  also have "r1 = takeWhile isDigit r1 @ 58 # r2" using run_split(1) [of r1 isDigit] b by simp
  also have "r2 = takeWhile isWhiteSpace r2 @ 43 # r3"
    using run_split(1) [of r2 isWhiteSpace] c by simp
  also have "r3 = takeWhile isDigitOrDot r3 @ 176 # 67 # rest"
    using run_split(1) [of r3 isDigitOrDot] strip_prefix_Some [OF d] by simp
  finally have "s = js ''Core '' @ takeWhile isDigit r1 @ 58 # takeWhile isWhiteSpace r2 @ 43
      # takeWhile isDigitOrDot r3 @ 176 # 67 # rest" .
  with n w g run_split(2) [of isDigit r1] run_split(2) [of isWhiteSpace r2]
    run_split(2) [of isDigitOrDot r3]
  show "\<exists>n ws g rest. s = js ''Core '' @ n @ 58 # ws @ 43 # g @ 176 # 67 # rest
        \<and> n \<noteq> [] \<and> list_all isDigit n \<and> ws \<noteq> [] \<and> list_all isWhiteSpace ws
        \<and> g \<noteq> [] \<and> list_all isDigitOrDot g"
    by blast
next
  assume "\<exists>n ws g rest. s = js ''Core '' @ n @ 58 # ws @ 43 # g @ 176 # 67 # rest
        \<and> n \<noteq> [] \<and> list_all isDigit n \<and> ws \<noteq> [] \<and> list_all isWhiteSpace ws
        \<and> g \<noteq> [] \<and> list_all isDigitOrDot g"
  then obtain n ws g rest where "s = js ''Core '' @ n @ 58 # ws @ 43 # g @ 176 # 67 # rest"
    "list_all isDigit n" "n \<noteq> []" "list_all isWhiteSpace ws" "ws \<noteq> []"
    "list_all isDigitOrDot g" "g \<noteq> []"
    by blast
  then show "core_here s \<noteq> None" by (simp add: core_here_class)
qed

lemma temp_search_iff:
  "search temp_here s = None \<longleftrightarrow>
     \<not> (\<exists>pre c rest. s = pre @ js ''temp='' @ c # rest \<and> isDigitOrDot c)"
proof -
  have "search temp_here s \<noteq> None \<longleftrightarrow>
      (\<exists>pre c rest. s = pre @ js ''temp='' @ c # rest \<and> isDigitOrDot c)"
    unfolding search_Some_iff temp_here_iff by blast
  then show ?thesis by blast
qed

lemma core_search_iff:
  "search core_here s = None \<longleftrightarrow>
     \<not> (\<exists>pre n ws g rest. s = pre @ js ''Core '' @ n @ 58 # ws @ 43 # g @ 176 # 67 # rest
        \<and> n \<noteq> [] \<and> list_all isDigit n \<and> ws \<noteq> [] \<and> list_all isWhiteSpace ws
        \<and> g \<noteq> [] \<and> list_all isDigitOrDot g)"
proof -
  have "search core_here s \<noteq> None \<longleftrightarrow>
      (\<exists>pre n ws g rest. s = pre @ js ''Core '' @ n @ 58 # ws @ 43 # g @ 176 # 67 # rest
        \<and> n \<noteq> [] \<and> list_all isDigit n \<and> ws \<noteq> [] \<and> list_all isWhiteSpace ws
        \<and> g \<noteq> [] \<and> list_all isDigitOrDot g)"
    unfolding search_Some_iff core_here_iff by blast
  then show ?thesis by blast
qed


lemma vcgencmd_fails_iff:
  "isl (vcgencmd_callback r) \<longleftrightarrow>
     exec_error r \<noteq> None \<or> stdout r = []
     \<or> \<not> (\<exists>pre c rest. stdout r = pre @ js ''temp='' @ c # rest \<and> isDigitOrDot c)"
  "isl (vcgencmd_callback r) \<longleftrightarrow> vcgencmd_callback r = Inl (Error ''vcgencmd failed'')"
proof -
  have "isl (vcgencmd_callback r) \<longleftrightarrow>
      exec_error r \<noteq> None \<or> stdout r = [] \<or> search temp_here (stdout r) = None"
    by (auto simp: vcgencmd_callback_def split: option.splits)
  then show "isl (vcgencmd_callback r) \<longleftrightarrow>
     exec_error r \<noteq> None \<or> stdout r = []
     \<or> \<not> (\<exists>pre c rest. stdout r = pre @ js ''temp='' @ c # rest \<and> isDigitOrDot c)"
    by (simp only: temp_search_iff)
  show "isl (vcgencmd_callback r) \<longleftrightarrow> vcgencmd_callback r = Inl (Error ''vcgencmd failed'')"
    by (auto simp: vcgencmd_callback_def split: option.splits)
qed

lemma thermal_zone_fails_iff:
  "isl (thermal_zone_callback r) \<longleftrightarrow>
     exec_error r \<noteq> None \<or> stdout r = [] \<or> \<not> number_prefix (stdout r)"
  "isl (thermal_zone_callback r) \<longleftrightarrow>
     thermal_zone_callback r = Inl (Error ''thermal_zone0 failed'')"
  by (auto simp: thermal_zone_callback_def div1000_NaN parseFloat_NaN Let_def)

lemma sensors_fails_iff:
  "isl (sensors_callback r) \<longleftrightarrow>
     exec_error r \<noteq> None \<or> stdout r = []
     \<or> \<not> (\<exists>pre n ws g rest.
            stdout r = pre @ js ''Core '' @ n @ 58 # ws @ 43 # g @ 176 # 67 # rest
            \<and> n \<noteq> [] \<and> list_all isDigit n \<and> ws \<noteq> [] \<and> list_all isWhiteSpace ws
            \<and> g \<noteq> [] \<and> list_all isDigitOrDot g)"
  "isl (sensors_callback r) \<longleftrightarrow> sensors_callback r = Inl (Error ''sensors failed'')"
proof -
  have "isl (sensors_callback r) \<longleftrightarrow>
      exec_error r \<noteq> None \<or> stdout r = [] \<or> search core_here (stdout r) = None"
    by (auto simp: sensors_callback_def split: option.splits)
  then show "isl (sensors_callback r) \<longleftrightarrow>
     exec_error r \<noteq> None \<or> stdout r = []
     \<or> \<not> (\<exists>pre n ws g rest.
            stdout r = pre @ js ''Core '' @ n @ 58 # ws @ 43 # g @ 176 # 67 # rest
            \<and> n \<noteq> [] \<and> list_all isDigit n \<and> ws \<noteq> [] \<and> list_all isWhiteSpace ws
            \<and> g \<noteq> [] \<and> list_all isDigitOrDot g)"
    by (simp only: core_search_iff)
  show "isl (sensors_callback r) \<longleftrightarrow> sensors_callback r = Inl (Error ''sensors failed'')"
    by (auto simp: sensors_callback_def split: option.splits)
qed

lemma vcgencmd_decimal:
  assumes "exec_error r = None" and "is_decimal d ip fp"
    and "case rest of [] \<Rightarrow> True | c # _ \<Rightarrow> \<not> isDigitOrDot c"
    and "stdout r = pre @ js ''temp='' @ d @ rest"
    and "first_match temp_here pre (js ''temp='' @ d @ rest)"
  shows "vcgencmd_callback r = Inr (decimal_number ip fp)"
proof -
  have "search temp_here (stdout r) = Some d"
    unfolding assms(4) using assms(5) temp_here_class [OF decimal_class [OF assms(2)] assms(3)]
    by (rule search_first)
  moreover have "parseFloat (d @ []) = decimal_number ip fp"
    by (rule parseFloat_decimal [OF assms(2)]) (simp add: ends_numeral_def)
  moreover have "stdout r \<noteq> []" using assms(4) by (simp add: js_def)
  ultimately show ?thesis using assms(1) by (simp add: vcgencmd_callback_def)
qed

lemma thermal_zone_decimal:
  assumes "exec_error r = None" and "is_decimal d ip fp" and "ends_numeral rest"
    and "stdout r = d @ rest"
  shows "thermal_zone_callback r = Inr (div1000 (decimal_number ip fp))"
proof -
  have "parseFloat (stdout r) = decimal_number ip fp"
    unfolding assms(4) by (rule parseFloat_decimal [OF assms(2,3)])
  moreover have "stdout r \<noteq> []" using assms(4) decimal_class(2) [OF assms(2)] by simp
  moreover have "\<not> isNaN (decimal_number ip fp)"
    by (simp add: isNaN_def decimal_number_def number_value_not_NaN)
  then have "\<not> isNaN (div1000 (decimal_number ip fp))"
    by (simp add: div1000_NaN)
  ultimately show ?thesis using assms(1) by (simp add: thermal_zone_callback_def)
qed

lemma sensors_decimal:
  assumes "exec_error r = None" and "list_all isDigit n" "n \<noteq> []"
    and "list_all isWhiteSpace ws" "ws \<noteq> []" and "is_decimal d ip fp"
    and "stdout r = pre @ js ''Core '' @ n @ 58 # ws @ 43 # d @ 176 # 67 # rest"
    and "first_match core_here pre (js ''Core '' @ n @ 58 # ws @ 43 # d @ 176 # 67 # rest)"
  shows "sensors_callback r = Inr (decimal_number ip fp)"
proof -
  have "search core_here (stdout r) = Some d"
    unfolding assms(7) using assms(8)
      core_here_class [OF assms(2-5) decimal_class [OF assms(6)]]
    by (rule search_first)
  moreover have "parseFloat (d @ []) = decimal_number ip fp"
    by (rule parseFloat_decimal [OF assms(6)]) (simp add: ends_numeral_def)
  moreover have "stdout r \<noteq> []" using assms(7) by (simp add: js_def)
  ultimately show ?thesis using assms(1) by (simp add: sensors_callback_def)
qed

text \<open>
  C6.  What the three parsers make of the output of their command.  A value is a
  JavaScript number: \<open>decimal_number\<close> is the double nearest to a decimal numeral,
  and an infinity when the numeral is too large for a double.
  \<^item> \<open>vcgencmd\<close>: when the command does not fail and its output holds \<open>temp=\<close> followed
    by a decimal numeral, at the leftmost place where the pattern matches, the result is
    the number the numeral denotes (\<open>temp=45.6'C\<close> gives 45.6).
  \<^item> thermal zone: when the command does not fail and its output starts with a decimal
    numeral, the result is the number the numeral denotes, divided by 1000 as doubles
    are (\<open>42123\<close> gives 42.123); in general, when the output starts like a number, the
    result is \<open>parseFloat\<close> of the output divided by 1000.
  \<^item> \<open>sensors\<close>: when the command does not fail and its output holds \<open>Core\<close>, digits,
    a colon, white space, \<open>+\<close>, a decimal numeral and the degree sign with \<open>C\<close>, at the
    leftmost place where the pattern matches, the result is the number the numeral
    denotes (\<open>Core 0: +38.0\<close> with the degree sign and \<open>C\<close> gives 38).
  \<^item> A probe fails exactly when its command fails, or prints nothing, or its output
    holds no text of the pattern's shape anywhere (for the thermal zone: the output does
    not start like a number, so that \<open>parseFloat\<close> gives NaN); it then reports its own
    error.
  \<^item> Each \<open>try...\<close> function hands its command to \<open>exec\<close> once and returns what its
    parser makes of the outcome.
\<close>

theorem probe_parsers:
  "(exec_error r = None \<and> is_decimal d ip fp
      \<and> (case rest of [] \<Rightarrow> True | c # _ \<Rightarrow> \<not> isDigitOrDot c)
      \<and> stdout r = pre @ js ''temp='' @ d @ rest
      \<and> first_match temp_here pre (js ''temp='' @ d @ rest)
     \<longrightarrow> vcgencmd_callback r = Inr (decimal_number ip fp))
   \<and> (exec_error r = None \<and> is_decimal d ip fp \<and> ends_numeral rest \<and> stdout r = d @ rest
        \<longrightarrow> thermal_zone_callback r = Inr (div1000 (decimal_number ip fp)))
   \<and> (exec_error r = None \<and> list_all isDigit n \<and> n \<noteq> []
        \<and> list_all isWhiteSpace ws \<and> ws \<noteq> [] \<and> is_decimal d ip fp
        \<and> stdout r = pre @ js ''Core '' @ n @ 58 # ws @ 43 # d @ 176 # 67 # rest
        \<and> first_match core_here pre (js ''Core '' @ n @ 58 # ws @ 43 # d @ 176 # 67 # rest)
        \<longrightarrow> sensors_callback r = Inr (decimal_number ip fp))
   \<and> (exec_error r = None \<and> stdout r \<noteq> [] \<and> number_prefix (stdout r)
        \<longrightarrow> thermal_zone_callback r = Inr (div1000 (parseFloat (stdout r))))
   \<and> (vcgencmd_callback r = Inl (Error ''vcgencmd failed'') \<longleftrightarrow>
        exec_error r \<noteq> None \<or> stdout r = []
        \<or> \<not> (\<exists>pre c rest. stdout r = pre @ js ''temp='' @ c # rest \<and> isDigitOrDot c))
   \<and> (thermal_zone_callback r = Inl (Error ''thermal_zone0 failed'') \<longleftrightarrow>
        exec_error r \<noteq> None \<or> stdout r = [] \<or> \<not> number_prefix (stdout r))
   \<and> (sensors_callback r = Inl (Error ''sensors failed'') \<longleftrightarrow>
        exec_error r \<noteq> None \<or> stdout r = []
        \<or> \<not> (\<exists>pre n ws g rest.
               stdout r = pre @ js ''Core '' @ n @ 58 # ws @ 43 # g @ 176 # 67 # rest
               \<and> n \<noteq> [] \<and> list_all isDigit n \<and> ws \<noteq> [] \<and> list_all isWhiteSpace ws
               \<and> g \<noteq> [] \<and> list_all isDigitOrDot g))
   \<and> (isl (vcgencmd_callback r) \<longleftrightarrow> vcgencmd_callback r = Inl (Error ''vcgencmd failed''))
   \<and> (isl (thermal_zone_callback r) \<longleftrightarrow>
        thermal_zone_callback r = Inl (Error ''thermal_zone0 failed''))
   \<and> (isl (sensors_callback r) \<longleftrightarrow> sensors_callback r = Inl (Error ''sensors failed''))
   \<and> tryVcgencmd env s =
        (vcgencmd_callback (exec_outcome env ''vcgencmd measure_temp''),
         s\<lparr>execLog := execLog s @ [''vcgencmd measure_temp'']\<rparr>)
   \<and> tryThermalZone env s =
        (thermal_zone_callback (exec_outcome env ''cat /sys/class/thermal/thermal_zone0/temp''),
         s\<lparr>execLog := execLog s @ [''cat /sys/class/thermal/thermal_zone0/temp'']\<rparr>)
   \<and> trySensors env s =
        (sensors_callback (exec_outcome env ''sensors -A 2>&1''),
         s\<lparr>execLog := execLog s @ [''sensors -A 2>&1'']\<rparr>)"
proof (intro conjI impI; (elim conjE)?)
  show "vcgencmd_callback r = Inr (decimal_number ip fp)"
    if "exec_error r = None" "is_decimal d ip fp"
      "case rest of [] \<Rightarrow> True | c # _ \<Rightarrow> \<not> isDigitOrDot c"
      "stdout r = pre @ js ''temp='' @ d @ rest"
      "first_match temp_here pre (js ''temp='' @ d @ rest)"
    using that by (rule vcgencmd_decimal)
  show "thermal_zone_callback r = Inr (div1000 (decimal_number ip fp))"
    if "exec_error r = None" "is_decimal d ip fp" "ends_numeral rest" "stdout r = d @ rest"
    using that by (rule thermal_zone_decimal)
  show "sensors_callback r = Inr (decimal_number ip fp)"
    if "exec_error r = None" "list_all isDigit n" "n \<noteq> []"
      "list_all isWhiteSpace ws" "ws \<noteq> []" "is_decimal d ip fp"
      "stdout r = pre @ js ''Core '' @ n @ 58 # ws @ 43 # d @ 176 # 67 # rest"
      "first_match core_here pre (js ''Core '' @ n @ 58 # ws @ 43 # d @ 176 # 67 # rest)"
    using that by (rule sensors_decimal)
  show "thermal_zone_callback r = Inr (div1000 (parseFloat (stdout r)))"
    if "exec_error r = None" "stdout r \<noteq> []" "number_prefix (stdout r)"
    using that by (simp add: thermal_zone_callback_def div1000_NaN parseFloat_NaN Let_def)
  show "vcgencmd_callback r = Inl (Error ''vcgencmd failed'') \<longleftrightarrow>
        exec_error r \<noteq> None \<or> stdout r = []
        \<or> \<not> (\<exists>pre c rest. stdout r = pre @ js ''temp='' @ c # rest \<and> isDigitOrDot c)"
    by (simp only: vcgencmd_fails_iff [symmetric])
  show "thermal_zone_callback r = Inl (Error ''thermal_zone0 failed'') \<longleftrightarrow>
        exec_error r \<noteq> None \<or> stdout r = [] \<or> \<not> number_prefix (stdout r)"
    by (simp only: thermal_zone_fails_iff [symmetric])
  show "sensors_callback r = Inl (Error ''sensors failed'') \<longleftrightarrow>
        exec_error r \<noteq> None \<or> stdout r = []
        \<or> \<not> (\<exists>pre n ws g rest.
               stdout r = pre @ js ''Core '' @ n @ 58 # ws @ 43 # g @ 176 # 67 # rest
               \<and> n \<noteq> [] \<and> list_all isDigit n \<and> ws \<noteq> [] \<and> list_all isWhiteSpace ws
               \<and> g \<noteq> [] \<and> list_all isDigitOrDot g)"
    by (simp only: sensors_fails_iff [symmetric])
  show "isl (vcgencmd_callback r) \<longleftrightarrow> vcgencmd_callback r = Inl (Error ''vcgencmd failed'')"
    by (rule vcgencmd_fails_iff)
  show "isl (thermal_zone_callback r) \<longleftrightarrow>
        thermal_zone_callback r = Inl (Error ''thermal_zone0 failed'')"
    by (rule thermal_zone_fails_iff)
  show "isl (sensors_callback r) \<longleftrightarrow> sensors_callback r = Inl (Error ''sensors failed'')"
    by (rule sensors_fails_iff)
  show "tryVcgencmd env s =
        (vcgencmd_callback (exec_outcome env ''vcgencmd measure_temp''),
         s\<lparr>execLog := execLog s @ [''vcgencmd measure_temp'']\<rparr>)"
    by (rule tryVcgencmd_eq)
  show "tryThermalZone env s =
        (thermal_zone_callback (exec_outcome env ''cat /sys/class/thermal/thermal_zone0/temp''),
         s\<lparr>execLog := execLog s @ [''cat /sys/class/thermal/thermal_zone0/temp'']\<rparr>)"
    by (rule tryThermalZone_eq)
  show "trySensors env s =
        (sensors_callback (exec_outcome env ''sensors -A 2>&1''),
         s\<lparr>execLog := execLog s @ [''sensors -A 2>&1'']\<rparr>)"
    by (rule trySensors_eq)
qed


text \<open>
  The rounding and the parsing at some telling places: 0.1 is not a double; of two
  doubles equally near, the one with the even significand is taken; \<open>- 0\<close> keeps its
  sign; white space, signs, exponents and text after the numeral; \<open>temp=.\<close> makes
  \<open>vcgencmd\<close>'s parser succeed with NaN.
\<close>

lemma rounding_samples:
  "number_value False 1 10 = Finite False 7205759403792794 (- 56)"
  "number_value False (2 ^ 53 + 1) 1 = Finite False (2 ^ 52) 1"
  "number_value False (2 ^ 53 + 3) 1 = Finite False (2 ^ 52 + 2) 1"
  "parseFloat (js ''-0'') = Finite True 0 (- 1074)"
  "parseFloat (js ''  +12.5e-1xyz'') = Finite False 5629499534213120 (- 52)"
  "parseFloat (js ''1.5E-3'') = Finite False 6917529027641082 (- 62)"
  "parseFloat (js ''.5'') = Finite False 4503599627370496 (- 53)"
  "parseFloat (js ''5.'') = Finite False 5629499534213120 (- 50)"
  "parseFloat (js ''1.2.3'') = Finite False 5404319552844595 (- 52)"
  "parseFloat (js ''-Infinity'') = NegInfinity"
  "parseFloat (js ''e5'') = NaN"
  "vcgencmd_callback (prints (js ''temp=.'')) = Inr NaN"
  by (simp_all add: number_eval parse_eval prints_def vcgencmd_callback_def temp_here_def)

lemma sample_outputs:
  "decimal_number (js ''45'') (js ''6'') = deg_45_6"
  "div1000 (decimal_number (js ''42123'') []) = deg_42_123"
  "decimal_number (js ''38'') (js ''0'') = deg_38"
  "number_value False 45600 1000 = deg_45_6"
  "number_value False 42123 1000 = deg_42_123"
  by (simp_all add: decimal_number_def digits_value_def js_def number_eval
      deg_45_6_def deg_42_123_def deg_38_def)

lemma sample_parses:
  "parseFloat (js ''-1500'' @ [10]) = Finite True 6597069766656000 (- 42)"
  "\<not> number_prefix (js ''cat: read error'' @ [10])"
  "search temp_here (js ''VCHI initialization failed'' @ [10]) = None"
  "search core_here (js ''No sensors found!'' @ [10]) = None"
  by (simp_all add: parse_eval number_eval number_prefix_def temp_here_def core_here_def)

lemma overflow_parse:
  "parseFloat (js ''1e309'' @ [10]) = PosInfinity"
  by (simp add: parse_eval number_eval)

theorem probe_parsers_witness:
  "vcgencmd_callback (prints (js ''temp=45.6'' @ [39, 67, 10])) = Inr deg_45_6
   \<and> thermal_zone_callback (prints (js ''42123'' @ [10])) = Inr deg_42_123
   \<and> sensors_callback (prints (js ''Core 0: +38.0'' @ [176, 67, 10])) = Inr deg_38
   \<and> vcgencmd_callback command_fails = Inl (Error ''vcgencmd failed'')
   \<and> vcgencmd_callback (prints (js ''VCHI initialization failed'' @ [10]))
       = Inl (Error ''vcgencmd failed'')
   \<and> thermal_zone_callback (prints (js ''cat: read error'' @ [10]))
       = Inl (Error ''thermal_zone0 failed'')
   \<and> sensors_callback (prints (js ''No sensors found!'' @ [10])) = Inl (Error ''sensors failed'')
   \<and> thermal_zone_callback (prints (js ''-1500'' @ [10]))
       = Inr (Finite True 6755399441055744 (- 52))
   \<and> thermal_zone_callback (prints (js ''1e309'' @ [10])) = Inr PosInfinity"
proof -
  let ?r1 = "prints (js ''temp=45.6'' @ [39, 67, 10])"
  let ?r2 = "prints (js ''42123'' @ [10])"
  let ?r3 = "prints (js ''Core 0: +38.0'' @ [176, 67, 10])"
  let ?r5 = "prints (js ''VCHI initialization failed'' @ [10])"
  let ?r6 = "prints (js ''cat: read error'' @ [10])"
  let ?r7 = "prints (js ''No sensors found!'' @ [10])"
  let ?r8 = "prints (js ''-1500'' @ [10])"
  let ?r9 = "prints (js ''1e309'' @ [10])"
  have h1: "exec_error ?r1 = None \<and> is_decimal (js ''45.6'') (js ''45'') (js ''6'')
      \<and> (case [39, 67, 10] of [] \<Rightarrow> True | c # _ \<Rightarrow> \<not> isDigitOrDot c)
      \<and> stdout ?r1 = [] @ js ''temp='' @ js ''45.6'' @ [39, 67, 10]
      \<and> first_match temp_here [] (js ''temp='' @ js ''45.6'' @ [39, 67, 10])"
    by (simp add: prints_def is_decimal_def js_def isDigit_def isDigitOrDot_def first_match_def)
  have 1: "vcgencmd_callback ?r1 = Inr (decimal_number (js ''45'') (js ''6''))"
    by (rule probe_parsers [THEN conjunct1, THEN mp, OF h1])
  have h2: "exec_error ?r2 = None \<and> is_decimal (js ''42123'') (js ''42123'') []
      \<and> ends_numeral [10] \<and> stdout ?r2 = js ''42123'' @ [10]"
    by (simp add: prints_def is_decimal_def js_def isDigit_def ends_numeral_def)
  have 2: "thermal_zone_callback ?r2 = Inr (div1000 (decimal_number (js ''42123'') []))"
    by (rule probe_parsers [THEN conjunct2, THEN conjunct1, THEN mp, OF h2])
  have h3: "exec_error ?r3 = None \<and> list_all isDigit (js ''0'') \<and> js ''0'' \<noteq> []
      \<and> list_all isWhiteSpace [32] \<and> [32] \<noteq> []
      \<and> is_decimal (js ''38.0'') (js ''38'') (js ''0'')
      \<and> stdout ?r3 = [] @ js ''Core '' @ js ''0'' @ 58 # [32] @ 43 # js ''38.0'' @ 176 # 67 # [10]
      \<and> first_match core_here [] (js ''Core '' @ js ''0'' @ 58 # [32] @ 43 # js ''38.0'' @ 176 # 67 # [10])"
    by (simp add: prints_def is_decimal_def js_def isDigit_def isWhiteSpace_def first_match_def)
  have 3: "sensors_callback ?r3 = Inr (decimal_number (js ''38'') (js ''0''))"
    by (rule probe_parsers [THEN conjunct2, THEN conjunct2, THEN conjunct1, THEN mp, OF h3])
  have "exec_error command_fails \<noteq> None \<or> stdout command_fails = []
        \<or> \<not> (\<exists>pre c rest. stdout command_fails = pre @ js ''temp='' @ c # rest
               \<and> isDigitOrDot c)"
    by (simp add: command_fails_def)
  then have 4: "vcgencmd_callback command_fails = Inl (Error ''vcgencmd failed'')"
    by (rule probe_parsers [THEN conjunct2, THEN conjunct2, THEN conjunct2, THEN conjunct2,
          THEN conjunct1, THEN iffD2])
  have "\<not> (\<exists>pre c rest. stdout ?r5 = pre @ js ''temp='' @ c # rest \<and> isDigitOrDot c)"
    unfolding temp_search_iff [symmetric] by (simp add: prints_def sample_parses)
  then have "exec_error ?r5 \<noteq> None \<or> stdout ?r5 = []
        \<or> \<not> (\<exists>pre c rest. stdout ?r5 = pre @ js ''temp='' @ c # rest \<and> isDigitOrDot c)"
    by blast
  then have 5: "vcgencmd_callback ?r5 = Inl (Error ''vcgencmd failed'')"
    by (rule probe_parsers [THEN conjunct2, THEN conjunct2, THEN conjunct2, THEN conjunct2,
          THEN conjunct1, THEN iffD2])
  have "exec_error ?r6 \<noteq> None \<or> stdout ?r6 = [] \<or> \<not> number_prefix (stdout ?r6)"
    by (simp add: prints_def sample_parses)
  then have 6: "thermal_zone_callback ?r6 = Inl (Error ''thermal_zone0 failed'')"
    by (rule probe_parsers [THEN conjunct2, THEN conjunct2, THEN conjunct2, THEN conjunct2,
          THEN conjunct2, THEN conjunct1, THEN iffD2])
  have "\<not> (\<exists>pre n ws g rest.
           stdout ?r7 = pre @ js ''Core '' @ n @ 58 # ws @ 43 # g @ 176 # 67 # rest
           \<and> n \<noteq> [] \<and> list_all isDigit n \<and> ws \<noteq> [] \<and> list_all isWhiteSpace ws
           \<and> g \<noteq> [] \<and> list_all isDigitOrDot g)"
    unfolding core_search_iff [symmetric] by (simp add: prints_def sample_parses)
  then have "exec_error ?r7 \<noteq> None \<or> stdout ?r7 = []
        \<or> \<not> (\<exists>pre n ws g rest.
           stdout ?r7 = pre @ js ''Core '' @ n @ 58 # ws @ 43 # g @ 176 # 67 # rest
           \<and> n \<noteq> [] \<and> list_all isDigit n \<and> ws \<noteq> [] \<and> list_all isWhiteSpace ws
           \<and> g \<noteq> [] \<and> list_all isDigitOrDot g)"
    by blast
  then have 7: "sensors_callback ?r7 = Inl (Error ''sensors failed'')"
    by (rule probe_parsers [THEN conjunct2, THEN conjunct2, THEN conjunct2, THEN conjunct2,
          THEN conjunct2, THEN conjunct2, THEN conjunct1, THEN iffD2])
  have "exec_error ?r8 = None \<and> stdout ?r8 \<noteq> [] \<and> number_prefix (stdout ?r8)"
    by (simp add: prints_def js_def number_prefix_def isDigit_def isWhiteSpace_def)
  then have "thermal_zone_callback ?r8 = Inr (div1000 (parseFloat (stdout ?r8)))"
    by (rule probe_parsers [THEN conjunct2, THEN conjunct2, THEN conjunct2, THEN conjunct1,
          THEN mp])
  then have 8: "thermal_zone_callback ?r8 = Inr (Finite True 6755399441055744 (- 52))"
    by (simp add: prints_def sample_parses(1) number_eval)
  have "exec_error ?r9 = None \<and> stdout ?r9 \<noteq> [] \<and> number_prefix (stdout ?r9)"
    by (simp add: prints_def js_def number_prefix_def isDigit_def isWhiteSpace_def)
  then have "thermal_zone_callback ?r9 = Inr (div1000 (parseFloat (stdout ?r9)))"
    by (rule probe_parsers [THEN conjunct2, THEN conjunct2, THEN conjunct2, THEN conjunct1,
          THEN mp])
  then have 9: "thermal_zone_callback ?r9 = Inr PosInfinity"
    by (simp add: prints_def overflow_parse)
  from 1 2 3 4 5 6 7 8 9 show ?thesis unfolding sample_outputs by (intro conjI)
qed

section \<open>The endpoint's claim\<close>

text \<open>
  C7.  The handler of \<open>GET /server_temp\<close> answers 200 with the cache record when the
  \<open>X-Plugin-Name\<close> header is exactly \<open>ServerTempPlugin\<close>, and 403 with the object
  \<open>{error: 'Unauthorised'}\<close> for every other value and for a missing header; a request
  changes nothing in the state.
\<close>

theorem server_temp_endpoint:
  "server_temp_handler header s =
     (if header = Some ''ServerTempPlugin'' then (200, CacheRecord (currentTemperature s))
      else (403, ErrorObject ''Unauthorised''))
   \<and> (fst (server_temp_handler header s) = 200 \<longleftrightarrow> header = Some ''ServerTempPlugin'')
   \<and> step (Request header) s = s"
  by (auto simp: server_temp_handler_def split: option.splits)

theorem server_temp_endpoint_witness:
  "server_temp_handler (Some ''ServerTempPlugin'') (run pi_env []) =
     (200, CacheRecord \<lparr> temperature = Some deg_45_6, timestamp = Some 1000,
                          unit = ''C'', error = None \<rparr>)
   \<and> server_temp_handler None (run pi_env []) = (403, ErrorObject ''Unauthorised'')
   \<and> server_temp_handler (Some ''servertempplugin'') (run pi_env [])
       = (403, ErrorObject ''Unauthorised'')
   \<and> server_temp_handler (Some []) (run pi_env []) = (403, ErrorObject ''Unauthorised'')"
  using server_temp_endpoint [of "Some ''ServerTempPlugin''" "run pi_env []"]
    server_temp_endpoint [of None "run pi_env []"]
    server_temp_endpoint [of "Some ''servertempplugin''" "run pi_env []"]
    server_temp_endpoint [of "Some []" "run pi_env []"]
  by (simp add: run_Nil first_cycle_pi)

section \<open>Start-up\<close>

text \<open>
  The server module calls \<open>updateTemperature\<close> in its module body, so the first
  acquisition starts at load; nothing of the server runs one second later.
\<close>

theorem first_acquisition_delayed_counterexample:
  "invocations server_startup UpdateTemperature 0
   \<and> \<not> invocations server_startup UpdateTemperature 1000"
  by (simp add: invocations_def server_startup_def UPDATE_INTERVAL_def)

text \<open>
  C8, amended.  The server starts the first acquisition at module load, without delay,
  and registers the interval on its own: \<open>updateTemperature\<close> runs at time 0 and at every
  multiple of ten minutes after it.  The delay of one second is the client's: its first
  fetch of the endpoint runs 1000 ms after \<open>init\<close>, and its interval, registered on its
  own, fetches at every multiple of ten minutes.
\<close>

theorem startup_schedules:
  "(invocations server_startup UpdateTemperature t \<longleftrightarrow> t = 0 \<or> (0 < t \<and> 600000 dvd t))
   \<and> (invocations client_init FetchTemperature t \<longleftrightarrow> t = 1000 \<or> (0 < t \<and> 600000 dvd t))
   \<and> \<not> invocations server_startup FetchTemperature t
   \<and> \<not> invocations client_init UpdateTemperature t"
  by (auto simp: invocations_def server_startup_def client_init_def UPDATE_INTERVAL_def)

theorem startup_schedules_witness:
  "invocations server_startup UpdateTemperature 0
   \<and> invocations server_startup UpdateTemperature 600000
   \<and> \<not> invocations server_startup UpdateTemperature 1000
   \<and> invocations client_init FetchTemperature 1000
   \<and> \<not> invocations client_init FetchTemperature 0
   \<and> invocations client_init FetchTemperature 1200000"
  using startup_schedules [of 0] startup_schedules [of 600000] startup_schedules [of 1000]
    startup_schedules [of 1200000]
  by simp

end
